theory Spec2Isabelle
  imports Complex_Main
begin

section \<open>Python values shared by the three evaluators of scripts/Evaluator.py\<close>

text \<open>
  Token ids are Python ints. Python floats are modelled by the reals they approximate
  (rounding is outside the model); \<open>np.mean\<close> of an empty list is \<open>nan\<close>, which
  gets a value of its own. Strings are lists of 8-bit characters.
\<close>

type_synonym token = int

datatype npfloat = Finite real | NaN

datatype error =
    AssertionError
  | CalledProcessError nat "string list"
  | FileNotFoundError string
  | IndexError
  | KeyError string
  | AttributeError string
  | ZeroDivisionError
  | RuntimeError
  | TypeError
  | Raised string

fun is_CalledProcessError :: "error \<Rightarrow> bool" where
  "is_CalledProcessError (CalledProcessError rc cmd) = True"
| "is_CalledProcessError _ = False"

subsection \<open>pathlib paths\<close>

text \<open>
  A path is its anchor (absolute or not) and its components. The right operand of
  \<open>/\<close> is one relative component in every use the source makes of it (a fixed file
  name or a formatted name); an empty operand leaves the path as it is.
\<close>

datatype path = Path bool "string list"

fun joinpath :: "path \<Rightarrow> string \<Rightarrow> path" where
  "joinpath (Path a ps) s = (if s = [] then Path a ps else Path a (ps @ [s]))"

fun path_parent :: "path \<Rightarrow> path" where
  "path_parent (Path a ps) = Path a (butlast ps)"

fun path_name :: "path \<Rightarrow> string" where
  "path_name (Path a ps) = (if ps = [] then [] else last ps)"

fun join_with :: "string \<Rightarrow> string list \<Rightarrow> string" where
  "join_with sep [] = []"
| "join_with sep [s] = s"
| "join_with sep (s # t # ss) = s @ sep @ join_with sep (t # ss)"

fun path_str :: "path \<Rightarrow> string" where
  "path_str (Path a ps) =
     (if a then ''/'' @ join_with ''/'' ps
      else if ps = [] then ''.'' else join_with ''/'' ps)"

subsection \<open>str.format of the step number\<close>

definition digit :: "nat \<Rightarrow> char" where
  "digit d = ''0123456789'' ! d"

function str_nat :: "nat \<Rightarrow> string" where
  "str_nat n = (if n < 10 then [digit n] else str_nat (n div 10) @ [digit (n mod 10)])"
  by pat_completeness auto
termination
  by (relation "measure id") auto

definition str_int :: "int \<Rightarrow> string" where
  "str_int i = (if i < 0 then CHR ''-'' # str_nat (nat (- i)) else str_nat (nat i))"

text \<open>\<open>"step_{}".format(n_step)\<close>, where \<open>n_step\<close> is \<open>None\<close> or an int.\<close>

definition format_step :: "int option \<Rightarrow> string" where
  "format_step n = ''step_'' @ (case n of None \<Rightarrow> ''None'' | Some i \<Rightarrow> str_int i)"

subsection \<open>Lines of a text\<close>

definition is_linebreak :: "char \<Rightarrow> bool" where
  "is_linebreak c =
     (c = CHR 0x0A \<or> c = CHR 0x0D \<or> c = CHR 0x0B \<or> c = CHR 0x0C \<or>
      c = CHR 0x1C \<or> c = CHR 0x1D \<or> c = CHR 0x1E \<or> c = CHR 0x85)"

text \<open>
  \<open>str.splitlines()\<close>: the text is cut at every line boundary (\<open>\r\n\<close> counts as
  one), the boundaries are dropped, and a text that ends in a boundary has no empty
  last line. \<open>cur\<close> holds the current line reversed.
\<close>

fun splitlines_from :: "string \<Rightarrow> string \<Rightarrow> string list" where
  "splitlines_from cur [] = (if cur = [] then [] else [rev cur])"
| "splitlines_from cur [c] = (if is_linebreak c then [rev cur] else [rev (c # cur)])"
| "splitlines_from cur (c # d # cs) =
     (if c = CHR 0x0D \<and> d = CHR 0x0A then rev cur # splitlines_from [] cs
      else if is_linebreak c then rev cur # splitlines_from [] (d # cs)
      else splitlines_from (c # cur) (d # cs))"

definition splitlines :: "string \<Rightarrow> string list" where
  "splitlines s = splitlines_from [] s"

text \<open>
  \<open>f.readlines()\<close> of a file opened in text mode: the text is cut after every
  \<open>\n\<close>, which stays at the end of its line.
\<close>

fun readlines_from :: "string \<Rightarrow> string \<Rightarrow> string list" where
  "readlines_from cur [] = (if cur = [] then [] else [rev cur])"
| "readlines_from cur (c # cs) =
     (if c = CHR 0x0A then rev (c # cur) # readlines_from [] cs
      else readlines_from (c # cur) cs)"

definition readlines :: "string \<Rightarrow> string list" where
  "readlines s = readlines_from [] s"

text \<open>\<open>s.rstrip('\n')\<close>.\<close>

definition rstrip_nl :: "string \<Rightarrow> string" where
  "rstrip_nl s = rev (dropWhile (\<lambda>c. c = CHR 0x0A) (rev s))"

definition is_space :: "char \<Rightarrow> bool" where
  "is_space c =
     (c = CHR '' '' \<or> c = CHR 0x09 \<or> c = CHR 0x0A \<or> c = CHR 0x0B \<or> c = CHR 0x0C \<or>
      c = CHR 0x0D \<or> c = CHR 0x1C \<or> c = CHR 0x1D \<or> c = CHR 0x1E \<or> c = CHR 0x1F \<or>
      c = CHR 0x85 \<or> c = CHR 0xA0)"

text \<open>\<open>s.strip()\<close>.\<close>

definition strip :: "string \<Rightarrow> string" where
  "strip s = rev (dropWhile is_space (rev (dropWhile is_space s)))"

subsection \<open>The process: environment, files, working directory, and what it did\<close>

datatype logmsg = LogError error | LogBleu string string real

datatype event =
    SetEnv string string
  | Exec "string list"
  | OpenRead path
  | OpenWrite path
  | Mkdir path
  | Chdir path
  | LogInfo logmsg

record world =
  environ :: "string \<rightharpoonup> string"
  files :: "path \<rightharpoonup> string"
  cwd :: path
  trace :: "event list"

definition emit :: "event \<Rightarrow> world \<Rightarrow> world" where
  "emit e w = w\<lparr>trace := trace w @ [e]\<rparr>"

text \<open>The files the process opened for reading, and for writing, in order.\<close>

fun reads_of :: "event list \<Rightarrow> path list" where
  "reads_of [] = []"
| "reads_of (OpenRead p # es) = p # reads_of es"
| "reads_of (e # es) = reads_of es"

fun writes_of :: "event list \<Rightarrow> path list" where
  "writes_of [] = []"
| "writes_of (OpenWrite p # es) = p # writes_of es"
| "writes_of (e # es) = writes_of es"

text \<open>\<open>os.environ[k] = v\<close>.\<close>

definition setenv :: "string \<Rightarrow> string \<Rightarrow> world \<Rightarrow> world" where
  "setenv k v w = emit (SetEnv k v) (w\<lparr>environ := (environ w)(k \<mapsto> v)\<rparr>)"

text \<open>\<open>path.exists()\<close>.\<close>

definition path_exists :: "world \<Rightarrow> path \<Rightarrow> bool" where
  "path_exists w p = (files w p \<noteq> None)"

text \<open>\<open>open(p, 'r')\<close> followed by \<open>read()\<close>: a missing file raises.\<close>

definition open_read :: "path \<Rightarrow> world \<Rightarrow> (error + string) \<times> world" where
  "open_read p w =
     (case files w p of
        None \<Rightarrow> (Inl (FileNotFoundError (path_str p)), emit (OpenRead p) w)
      | Some txt \<Rightarrow> (Inr txt, emit (OpenRead p) w))"

text \<open>
  \<open>open(p, 'w')\<close> and the writes up to the close: the file is truncated and then holds
  what was written. Opening for writing is taken to succeed.
\<close>

definition write_text :: "path \<Rightarrow> string \<Rightarrow> world \<Rightarrow> world" where
  "write_text p txt w = emit (OpenWrite p) (w\<lparr>files := (files w)(p \<mapsto> txt)\<rparr>)"

text \<open>
  A child process: from the command and the parent's state it yields an exit code,
  its standard output and the files it leaves behind. It cannot change the parent's
  environment or working directory.
\<close>

type_synonym spawn = "string list \<Rightarrow> world \<Rightarrow> nat \<times> string \<times> (path \<rightharpoonup> string)"

text \<open>\<open>subprocess.check_output(cmd)\<close>; \<open>check_call\<close> is the same without the output.\<close>

definition check_output :: "spawn \<Rightarrow> string list \<Rightarrow> world \<Rightarrow> (error + string) \<times> world" where
  "check_output sp cmd w =
     (case sp cmd w of
        (rc, out, fs) \<Rightarrow>
          (if rc = 0 then Inr out else Inl (CalledProcessError rc cmd),
           emit (Exec cmd) (w\<lparr>files := fs\<rparr>)))"

definition check_call :: "spawn \<Rightarrow> string list \<Rightarrow> world \<Rightarrow> (error + unit) \<times> world" where
  "check_call sp cmd w =
     (case check_output sp cmd w of
        (Inl e, w') \<Rightarrow> (Inl e, w')
      | (Inr out, w') \<Rightarrow> (Inr (), w'))"

subsection \<open>The collaborators: tokenizer, model, dataloader\<close>

text \<open>
  The tokenizer and the model are objects of libraries outside the repository; they
  are records of the functions the evaluators call, taken to return normally.
  \<open>convert_tokens_to_ids\<close> and \<open>batch_decode\<close> work item by item, and so does the
  tokenizer called on a list of strings.
\<close>

record tokenizer =
  convert_token_to_id :: "string \<Rightarrow> token"
  encode :: "string \<Rightarrow> token list"
  decode :: "token list \<Rightarrow> string"

definition convert_tokens_to_ids :: "tokenizer \<Rightarrow> string list \<Rightarrow> token list" where
  "convert_tokens_to_ids tk ts = map (convert_token_to_id tk) ts"

definition batch_decode :: "tokenizer \<Rightarrow> token list list \<Rightarrow> string list" where
  "batch_decode tk seqs = map (decode tk) seqs"

definition tokenize_all :: "tokenizer \<Rightarrow> string list \<Rightarrow> token list list" where
  "tokenize_all tk ss = map (encode tk) ss"

record batch =
  input_ids :: "token list list"
  attention_mask :: "token list list"
  labels :: "token list list"

record gen_args =
  g_input_ids :: "token list list"
  g_attention_mask :: "token list list"
  decoder_start_token_id :: token
  forced_bos_token_id :: "token option"
  bad_words_ids :: "token list list option"
  num_beams :: nat

text \<open>
  The model: its mode flag (\<open>model.eval()\<close> clears it), the loss of a forward pass,
  and \<open>generate\<close>; both may depend on the mode.
\<close>

record model =
  training :: bool
  forward_loss :: "bool \<Rightarrow> batch \<Rightarrow> real"
  generate :: "bool \<Rightarrow> gen_args \<Rightarrow> token list list"

definition model_eval :: "model \<Rightarrow> model" where
  "model_eval m = m\<lparr>training := False\<rparr>"

text \<open>\<open>np.mean(xs)\<close> of a list of floats.\<close>

definition np_mean :: "real list \<Rightarrow> npfloat" where
  "np_mean xs = (if xs = [] then NaN else Finite (sum_list xs / real (length xs)))"

section \<open>The evaluator objects\<close>

text \<open>
  The three classes share the attributes of the first record; \<open>n_step\<close> is an
  attribute that only \<open>run_eval\<close> creates, so it is \<open>None\<close> on a new object and
  \<open>Some n\<close> once \<open>run_eval\<close> has stored \<open>n\<close> (itself \<open>None\<close> or an int). The
  logger is the process's log, kept in the trace of the world.
\<close>

record evaluator =
  keep_output_every_n :: nat
  tokenizer :: tokenizer
  model :: model
  pred_save_dir :: path
  n_step :: "int option option"

record graph_evaluator = evaluator +
  dataloader :: "batch list"
  src_lang :: string

record amr_evaluator = graph_evaluator +
  eval_gold_file :: path
  sent_path :: path

record ucca_evaluator = graph_evaluator +
  split :: string
  gold_mrp_save_to :: path
  pred_mrp_save_to :: path
  toy_graph :: string
  toy_sent :: string
  gold_graphs :: "string list"
  sents :: "string list"

section \<open>UccaEvaluator\<close>

text \<open>
  What \<open>UccaEvaluator\<close> imports or calls from outside this file: \<open>UccaParser().parse_ucca\<close>
  and \<open>UccaMRPConverter(tree, sent, i).convert_tree_to_json()\<close>, which may raise;
  \<open>json.dump(item, f)\<close>, which yields the text it wrote and the exception it raised, if
  any; the child processes; and \<open>json.loads(output)['labeled']['primary']['f']\<close>.
\<close>

text \<open>
  A value found in a JSON report: a number, a boolean, or anything else (\<open>null\<close>, a
  string, an array or an object).
\<close>

datatype json_value = JsonNumber real | JsonBool bool | JsonOther

record ('tree, 'json) ucca_libs =
  parse_ucca :: "string \<Rightarrow> error + 'tree"
  convert_tree_to_json :: "'tree \<Rightarrow> string \<Rightarrow> nat \<Rightarrow> error + 'json"
  json_dump :: "'json \<Rightarrow> string \<times> error option"
  ucca_spawn :: spawn
  labeled_primary_f :: "string \<Rightarrow> error + json_value"

definition ucca_init ::
  "tokenizer \<Rightarrow> path \<Rightarrow> path \<Rightarrow> path \<Rightarrow> model \<Rightarrow> batch list \<Rightarrow> string \<Rightarrow> string \<Rightarrow> world
     \<Rightarrow> (error + ucca_evaluator) \<times> world" where
  "ucca_init tk gold_file sent_file save_dir m dl split_arg lang w =
     (case open_read gold_file w of
        (Inl e, w1) \<Rightarrow> (Inl e, w1)
      | (Inr g, w1) \<Rightarrow>
          (case open_read sent_file w1 of
             (Inl e, w2) \<Rightarrow> (Inl e, w2)
           | (Inr s, w2) \<Rightarrow>
               (Inr \<lparr>keep_output_every_n = 100,
                     tokenizer = tk,
                     model = model_eval m,
                     pred_save_dir = save_dir,
                     n_step = None,
                     dataloader = dl,
                     src_lang = lang,
                     split = split_arg,
                     gold_mrp_save_to = joinpath save_dir (split_arg @ ''.gold.mrp''),
                     pred_mrp_save_to = joinpath save_dir (split_arg @ ''.pred.mrp''),
                     toy_graph =
                       ''[ <root_0> H [ <H_0> D [ <D_0> T [ Highly ] ] S [ <S_0> T [ recommended ] ] ] ]'',
                     toy_sent = ''Highly recommended'',
                     gold_graphs = splitlines g,
                     sents = splitlines s\<rparr>, w2)))"

definition save_prediction_raw ::
  "ucca_evaluator \<Rightarrow> string list \<Rightarrow> world \<Rightarrow> (error + unit) \<times> world" where
  "save_prediction_raw ev predictions w =
     (case n_step ev of
        None \<Rightarrow> (Inl (AttributeError ''n_step''), w)
      | Some n \<Rightarrow>
          (let save_dir = joinpath (pred_save_dir ev) (format_step n)
           in (Inr (),
               write_text (joinpath save_dir ''ucca.pred.tf'')
                 (concat (map (\<lambda>pred. pred @ [CHR 0x0A]) predictions))
                 (emit (Mkdir save_dir) w))))"

text \<open>The arguments of the call of \<open>model.generate\<close> on one batch.\<close>

definition ucca_gen_args :: "tokenizer \<Rightarrow> token \<Rightarrow> batch \<Rightarrow> gen_args" where
  "ucca_gen_args tk start dev_input =
     \<lparr>g_input_ids = input_ids dev_input,
      g_attention_mask = attention_mask dev_input,
      decoder_start_token_id = start,
      forced_bos_token_id = Some (convert_tokens_to_ids tk [''[''] ! 0),
      bad_words_ids = None,
      num_beams = 5\<rparr>"

fun ucca_gen_loop ::
  "tokenizer \<Rightarrow> model \<Rightarrow> token \<Rightarrow> batch list \<Rightarrow> string list \<Rightarrow> real list
     \<Rightarrow> string list \<times> real list" where
  "ucca_gen_loop tk m start [] eval_predictions eval_losses = (eval_predictions, eval_losses)"
| "ucca_gen_loop tk m start (dev_input # rest) eval_predictions eval_losses =
     (let loss = forward_loss m (training m) dev_input;
          eval_generated = generate m (training m) (ucca_gen_args tk start dev_input);
          gen_tok = batch_decode tk eval_generated
      in ucca_gen_loop tk m start rest (eval_predictions @ gen_tok) (eval_losses @ [loss]))"

definition ucca_gen_outputs ::
  "ucca_evaluator \<Rightarrow> world \<Rightarrow> (error + string list \<times> real list) \<times> world" where
  "ucca_gen_outputs ev w =
     (let start = convert_tokens_to_ids (tokenizer ev) [''ucca''] ! 0;
          res = ucca_gen_loop (tokenizer ev) (model ev) start (dataloader ev) [] []
      in case save_prediction_raw ev (fst res) w of
           (Inl e, w1) \<Rightarrow> (Inl e, w1)
         | (Inr u, w1) \<Rightarrow> (Inr res, w1))"

text \<open>
  The loop of \<open>delinearize_to_tree\<close> over \<open>zip(graphs, sents)\<close>: the bare \<open>except\<close>
  catches whatever the parser raises on the graph; what it raises on the toy graph is
  not caught.
\<close>

fun delinearize_loop ::
  "(string \<Rightarrow> error + 'tree) \<Rightarrow> string \<Rightarrow> (string \<times> string) list \<Rightarrow> 'tree list
     \<Rightarrow> error + 'tree list" where
  "delinearize_loop parse toy [] trees = Inr trees"
| "delinearize_loop parse toy ((graph, sent) # rest) trees =
     (case parse graph of
        Inr tree \<Rightarrow> delinearize_loop parse toy rest (trees @ [tree])
      | Inl err \<Rightarrow>
          (case parse toy of
             Inr tree \<Rightarrow> delinearize_loop parse toy rest (trees @ [tree])
           | Inl e \<Rightarrow> Inl e))"

definition delinearize_to_tree ::
  "('tree, 'json) ucca_libs \<Rightarrow> ucca_evaluator \<Rightarrow> string list \<Rightarrow> string list
     \<Rightarrow> error + 'tree list" where
  "delinearize_to_tree libs ev graphs sentences =
     delinearize_loop (parse_ucca libs) (toy_graph ev) (zip graphs sentences) []"

fun reformat_loop ::
  "('tree \<Rightarrow> string \<Rightarrow> nat \<Rightarrow> error + 'json) \<Rightarrow> nat \<Rightarrow> ('tree \<times> string) list \<Rightarrow> 'json list
     \<Rightarrow> error + 'json list" where
  "reformat_loop conv i [] mrps = Inr mrps"
| "reformat_loop conv i ((tree, sent) # rest) mrps =
     (case conv tree sent i of
        Inl e \<Rightarrow> Inl e
      | Inr converted \<Rightarrow> reformat_loop conv (Suc i) rest (mrps @ [converted]))"

definition reformat_to_mrp ::
  "('tree, 'json) ucca_libs \<Rightarrow> 'tree list \<Rightarrow> string list \<Rightarrow> error + 'json list" where
  "reformat_to_mrp libs trees sentences =
     reformat_loop (convert_tree_to_json libs) 0 (zip trees sentences) []"

text \<open>
  The loop of \<open>write_mrp\<close>: \<open>out\<close> is the text written so far. When \<open>json.dump\<close>
  raises, the file keeps what had been written.
\<close>

fun dump_items ::
  "('json \<Rightarrow> string \<times> error option) \<Rightarrow> 'json list \<Rightarrow> string \<Rightarrow> string \<times> error option" where
  "dump_items dump [] out = (out, None)"
| "dump_items dump (item # rest) out =
     (case dump item of
        (txt, Some e) \<Rightarrow> (out @ txt, Some e)
      | (txt, None) \<Rightarrow> dump_items dump rest (out @ txt @ [CHR 0x0A]))"

definition write_mrp ::
  "('tree, 'json) ucca_libs \<Rightarrow> path \<Rightarrow> 'json list \<Rightarrow> world \<Rightarrow> error option \<times> world" where
  "write_mrp libs save_to data w =
     (case dump_items (json_dump libs) data [] of
        (out, err) \<Rightarrow> (err, write_text save_to out w))"

text \<open>\<open>round(x, 3)\<close> on a float: to the nearest multiple of 1/1000, ties to even.\<close>

definition round_half_even :: "real \<Rightarrow> int" where
  "round_half_even x =
     (let f = \<lfloor>x\<rfloor>; r = x - of_int f
      in if r < 1 / 2 then f else if 1 / 2 < r then f + 1 else if even f then f else f + 1)"

definition round3 :: "real \<Rightarrow> real" where
  "round3 x = of_int (round_half_even (x * 1000)) / 1000"

text \<open>
  \<open>round(v, 3)\<close> on a value of the report: a boolean counts as the int 0 or 1, and
  a value that is not a number raises \<open>TypeError\<close>.
\<close>

definition py_round3 :: "json_value \<Rightarrow> error + real" where
  "py_round3 v =
     (case v of
        JsonNumber x \<Rightarrow> Inr (round3 x)
      | JsonBool b \<Rightarrow> Inr (if b then 1 else 0)
      | JsonOther \<Rightarrow> Inl TypeError)"

definition mtool_cmd :: "path \<Rightarrow> path \<Rightarrow> string list" where
  "mtool_cmd gold_file pred_file =
     [''mtool'', ''--score'', ''ucca'', ''--read'', ''mrp'', ''--gold'',
      path_str gold_file, path_str pred_file]"

text \<open>
  \<open>compute_ucca\<close>: the flag is set back to \<open>true\<close> before the \<open>return\<close>, whose
  \<open>round\<close> can still raise.
\<close>

definition compute_ucca ::
  "('tree, 'json) ucca_libs \<Rightarrow> path \<Rightarrow> path \<Rightarrow> world \<Rightarrow> (error + real) \<times> world" where
  "compute_ucca libs gold_file pred_file w =
     (case check_output (ucca_spawn libs) (mtool_cmd gold_file pred_file)
             (setenv ''TOKENIZERS_PARALLELISM'' ''false'' w) of
        (Inl e, w1) \<Rightarrow> (Inl e, w1)
      | (Inr output, w1) \<Rightarrow>
          (case labeled_primary_f libs output of
             Inl e \<Rightarrow> (Inl e, w1)
           | Inr ucca_f1 \<Rightarrow>
               (case py_round3 ucca_f1 of
                  Inl e \<Rightarrow> (Inl e, setenv ''TOKENIZERS_PARALLELISM'' ''true'' w1)
                | Inr rounded \<Rightarrow> (Inr rounded, setenv ''TOKENIZERS_PARALLELISM'' ''true'' w1))))"

definition ucca_run_eval ::
  "('tree, 'json) ucca_libs \<Rightarrow> ucca_evaluator \<Rightarrow> int option \<Rightarrow> world
     \<Rightarrow> (error + npfloat \<times> real) \<times> ucca_evaluator \<times> world" where
  "ucca_run_eval libs ev0 step w =
     (let ev = ev0\<lparr>n_step := Some step\<rparr>
      in case ucca_gen_outputs ev w of
           (Inl e, w1) \<Rightarrow> (Inl e, ev, w1)
         | (Inr (predictions, losses), w1) \<Rightarrow>
      (case delinearize_to_tree libs ev (gold_graphs ev) (sents ev) of
           Inl e \<Rightarrow> (Inl e, ev, w1)
         | Inr gold_trees \<Rightarrow>
      (case delinearize_to_tree libs ev predictions (sents ev) of
           Inl e \<Rightarrow> (Inl e, ev, w1)
         | Inr pred_trees \<Rightarrow>
      (case reformat_to_mrp libs gold_trees (sents ev) of
           Inl e \<Rightarrow> (Inl e, ev, w1)
         | Inr gold_mrp_format \<Rightarrow>
      (case reformat_to_mrp libs pred_trees (sents ev) of
           Inl e \<Rightarrow> (Inl e, ev, w1)
         | Inr pred_mrp_format \<Rightarrow>
      (case write_mrp libs (gold_mrp_save_to ev) gold_mrp_format w1 of
           (Some e, w2) \<Rightarrow> (Inl e, ev, w2)
         | (None, w2) \<Rightarrow>
      (case write_mrp libs (pred_mrp_save_to ev) pred_mrp_format w2 of
           (Some e, w3) \<Rightarrow> (Inl e, ev, w3)
         | (None, w3) \<Rightarrow>
      (case compute_ucca libs (gold_mrp_save_to ev) (pred_mrp_save_to ev) w3 of
           (Inl e, w4) \<Rightarrow> (Inl e, ev, w4)
         | (Inr ucca_f1, w4) \<Rightarrow> (Inr (np_mean losses, ucca_f1), ev, w4)))))))))"

section \<open>AmrEvaluator\<close>

text \<open>
  The constants of \<open>settings\<close> are parameters. The model of the helpers of
  \<open>eval_utils\<close> follows below; \<open>amr_postprocessing(pred_file, sent_path)\<close> is a
  parameter that may raise and may change files, and is taken to leave the
  environment alone. \<open>float_of_str\<close> is Python's \<open>float\<close> on a string.
\<close>

record settings =
  AMR_SCRIPT :: path
  CHINESE_VOCAB :: path
  CHINESE_VOCAB_PAD :: path
  mbart_lang_code_maps :: "string \<rightharpoonup> string"

record amr_libs =
  amr_postprocessing :: "path \<Rightarrow> path \<Rightarrow> world \<Rightarrow> error option \<times> (path \<rightharpoonup> string)"
  amr_spawn :: spawn
  float_of_str :: "string \<Rightarrow> error + real"

text \<open>
  Modelled from the spec: \<open>eval_utils.save_predictions\<close> is missing. The spec has
  "plain-text prediction files (one sentence per line)" under the given path; the
  callers use its result as the path of that file.
\<close>

definition save_predictions :: "string list \<Rightarrow> path \<Rightarrow> world \<Rightarrow> path \<times> world" where
  "save_predictions predictions save_to w =
     (save_to,
      write_text save_to (concat (map (\<lambda>pred. pred @ [CHR 0x0A]) predictions))
        (emit (Mkdir (path_parent save_to)) w))"

text \<open>
  Modelled from the spec: \<open>eval_utils.cd\<close> is missing. The spec has the scorer invoked
  as \<open>python smatch/smatch.py\<close>, a path relative to the script directory, so
  \<open>with cd(dir)\<close> is the scoped change of the working directory: it enters \<open>dir\<close>,
  runs the body, and goes back, also when the body raises.
\<close>

definition chdir :: "path \<Rightarrow> world \<Rightarrow> world" where
  "chdir dir w = emit (Chdir dir) (w\<lparr>cwd := dir\<rparr>)"

definition cd :: "path \<Rightarrow> (world \<Rightarrow> 'a \<times> world) \<Rightarrow> world \<Rightarrow> 'a \<times> world" where
  "cd dir body w =
     (case body (chdir dir w) of
        (r, w1) \<Rightarrow> (r, chdir (cwd w) w1))"

definition amr_init ::
  "tokenizer \<Rightarrow> path \<Rightarrow> path \<Rightarrow> path \<Rightarrow> model \<Rightarrow> batch list \<Rightarrow> string \<Rightarrow> amr_evaluator" where
  "amr_init tk gold_file sent_file save_dir m dl lang =
     \<lparr>keep_output_every_n = 100,
      tokenizer = tk,
      model = model_eval m,
      pred_save_dir = save_dir,
      n_step = None,
      dataloader = dl,
      src_lang = lang,
      eval_gold_file = gold_file,
      sent_path = sent_file\<rparr>"

text \<open>\<open>[[bad_word_id[-1]] for bad_word_id in ids]\<close>: the last id of an empty list raises.\<close>

fun last_ids :: "token list list \<Rightarrow> error + token list list" where
  "last_ids [] = Inr []"
| "last_ids (bad_word_id # rest) =
     (if bad_word_id = [] then Inl IndexError
      else (case last_ids rest of
              Inl e \<Rightarrow> Inl e
            | Inr r \<Rightarrow> Inr ([last bad_word_id] # r)))"

definition chinese_bad_words ::
  "settings \<Rightarrow> tokenizer \<Rightarrow> world \<Rightarrow> (error + token list list) \<times> world" where
  "chinese_bad_words st tk w =
     (case open_read (CHINESE_VOCAB st) w of
        (Inl e, w1) \<Rightarrow> (Inl e, w1)
      | (Inr f, w1) \<Rightarrow>
          (case open_read (CHINESE_VOCAB_PAD st) w1 of
             (Inl e, w2) \<Rightarrow> (Inl e, w2)
           | (Inr p, w2) \<Rightarrow>
               (let chinese_tok = map rstrip_nl (readlines f);
                    chinese_tok_ids = tokenize_all tk chinese_tok;
                    chinese_subtok_padded = map rstrip_nl (readlines p);
                    chinese_subtok_padded_ids = tokenize_all tk chinese_subtok_padded
                in case last_ids chinese_subtok_padded_ids of
                     Inl e \<Rightarrow> (Inl e, w2)
                   | Inr chinese_subtok_ids \<Rightarrow>
                       (Inr (filter (\<lambda>ele. ele \<noteq> []) (chinese_tok_ids @ chinese_subtok_ids)),
                        w2))))"

text \<open>The arguments of the call of \<open>model.generate\<close> on one batch.\<close>

definition amr_gen_args :: "tokenizer \<Rightarrow> token \<Rightarrow> token list list option \<Rightarrow> batch \<Rightarrow> gen_args" where
  "amr_gen_args tk start bad dev_input =
     \<lparr>g_input_ids = input_ids dev_input,
      g_attention_mask = attention_mask dev_input,
      decoder_start_token_id = start,
      forced_bos_token_id = Some (convert_tokens_to_ids tk [''(''] ! 0),
      bad_words_ids = bad,
      num_beams = 5\<rparr>"

fun amr_gen_loop ::
  "tokenizer \<Rightarrow> model \<Rightarrow> token \<Rightarrow> token list list option \<Rightarrow> batch list \<Rightarrow> string list
     \<Rightarrow> real list \<Rightarrow> string list \<times> real list" where
  "amr_gen_loop tk m start bad [] eval_predictions eval_losses =
     (eval_predictions, eval_losses)"
| "amr_gen_loop tk m start bad (dev_input # rest) eval_predictions eval_losses =
     (let loss = forward_loss m (training m) dev_input;
          eval_generated = generate m (training m) (amr_gen_args tk start bad dev_input);
          tok_eval_predictions = batch_decode tk eval_generated
      in amr_gen_loop tk m start bad rest
           (eval_predictions @ tok_eval_predictions) (eval_losses @ [loss]))"

definition amr_gen_outputs ::
  "settings \<Rightarrow> amr_evaluator \<Rightarrow> world \<Rightarrow> (error + string list \<times> real list) \<times> world" where
  "amr_gen_outputs st ev w =
     (let start = convert_tokens_to_ids (tokenizer ev) [''amr''] ! 0
      in case (if src_lang ev = ''zh''
               then (case chinese_bad_words st (tokenizer ev) w of
                       (Inl e, w1) \<Rightarrow> (Inl e, w1)
                     | (Inr ids, w1) \<Rightarrow> (Inr (Some ids), w1))
               else (Inr None, w)) of
           (Inl e, w1) \<Rightarrow> (Inl e, w1)
         | (Inr bad, w1) \<Rightarrow>
             (Inr (amr_gen_loop (tokenizer ev) (model ev) start bad (dataloader ev) [] []), w1))"

definition smatch_cmd :: "path \<Rightarrow> path \<Rightarrow> string list" where
  "smatch_cmd reformatted ref_path =
     [''python'', ''smatch/smatch.py'', ''-f'', path_str reformatted, path_str ref_path,
      ''-r'', ''5'', ''--significant'', ''3'']"

definition reformatted_path :: "path \<Rightarrow> path" where
  "reformatted_path pred_path =
     joinpath (path_parent pred_path) (path_name pred_path @ ''.restore.pruned.coref.all.form'')"

definition compute_smatch ::
  "settings \<Rightarrow> amr_libs \<Rightarrow> path \<Rightarrow> path \<Rightarrow> world \<Rightarrow> (error + real) \<times> world" where
  "compute_smatch st libs pred_path ref_path w =
     (let reformatted = reformatted_path pred_path;
          computed_smatch = joinpath (joinpath (AMR_SCRIPT st) ''smatch'') ''f_score.txt''
      in if \<not> path_exists w ref_path then (Inl AssertionError, w)
         else (case cd (AMR_SCRIPT st)
                      (check_call (amr_spawn libs) (smatch_cmd reformatted ref_path)) w of
                 (Inl e, w1) \<Rightarrow> (Inl e, w1)
               | (Inr u, w1) \<Rightarrow>
                   (case open_read computed_smatch w1 of
                      (Inl e, w2) \<Rightarrow> (Inl e, w2)
                    | (Inr txt, w2) \<Rightarrow>
                        (case float_of_str libs (strip txt) of
                           Inl e \<Rightarrow> (Inl e, w2)
                         | Inr smatch \<Rightarrow> (Inr smatch, w2)))))"

text \<open>The body of the \<open>try\<close> of \<open>run_eval\<close>.\<close>

definition amr_scoring ::
  "settings \<Rightarrow> amr_libs \<Rightarrow> path \<Rightarrow> path \<Rightarrow> path \<Rightarrow> world \<Rightarrow> (error + real) \<times> world" where
  "amr_scoring st libs pred_file sent_file gold_file w =
     (let w1 = setenv ''TOKENIZERS_PARALLELISM'' ''false'' w
      in case amr_postprocessing libs pred_file sent_file w1 of
           (Some e, fs) \<Rightarrow> (Inl e, w1\<lparr>files := fs\<rparr>)
         | (None, fs) \<Rightarrow>
             (case compute_smatch st libs pred_file gold_file (w1\<lparr>files := fs\<rparr>) of
                (Inl e, w2) \<Rightarrow> (Inl e, w2)
              | (Inr smatch, w2) \<Rightarrow>
                  (Inr smatch, setenv ''TOKENIZERS_PARALLELISM'' ''true'' w2)))"

definition amr_pred_file :: "amr_evaluator \<Rightarrow> int option \<Rightarrow> path" where
  "amr_pred_file ev step =
     joinpath (joinpath (joinpath (pred_save_dir ev) (format_step step)) (src_lang ev))
       ''pred.txt.tf''"

definition amr_run_eval ::
  "settings \<Rightarrow> amr_libs \<Rightarrow> amr_evaluator \<Rightarrow> int option \<Rightarrow> world
     \<Rightarrow> (error + npfloat \<times> real) \<times> amr_evaluator \<times> world" where
  "amr_run_eval st libs ev0 step w =
     (let ev = ev0\<lparr>n_step := Some step\<rparr>
      in case amr_gen_outputs st ev w of
           (Inl e, w1) \<Rightarrow> (Inl e, ev, w1)
         | (Inr (eval_predictions, eval_losses), w1) \<Rightarrow>
             (case save_predictions eval_predictions (amr_pred_file ev step) w1 of
                (eval_pred_file, w2) \<Rightarrow>
                  (case amr_scoring st libs eval_pred_file (sent_path ev) (eval_gold_file ev) w2 of
                     (Inr smatch, w3) \<Rightarrow> (Inr (np_mean eval_losses, smatch), ev, w3)
                   | (Inl err, w3) \<Rightarrow>
                       (if is_CalledProcessError err
                        then (Inr (np_mean eval_losses, 0), ev, emit (LogInfo (LogError err)) w3)
                        else (Inl err, ev, w3)))))"

section \<open>MTEvaluator\<close>

text \<open>
  \<open>mt_dataloaders\<close> is a dict, kept as the list of its items in insertion order.
  \<open>bleu_score pred target\<close> is the value that the metric object of
  \<open>torchmetrics.BLEUScore\<close> returns when called on the one pair
  \<open>preds=[pred], target=[[target]]\<close>.
\<close>

record mt_evaluator = evaluator +
  tgt_lang :: string
  mt_dataloaders :: "(string \<times> batch list) list"

record mt_libs =
  bleu_score :: "string \<Rightarrow> string \<Rightarrow> real"

definition mt_init ::
  "settings \<Rightarrow> tokenizer \<Rightarrow> model \<Rightarrow> path \<Rightarrow> (string \<times> batch list) list \<Rightarrow> error + mt_evaluator" where
  "mt_init st tk m save_dir dls =
     (case mbart_lang_code_maps st ''en'' of
        None \<Rightarrow> Inl (KeyError ''en'')
      | Some code \<Rightarrow>
          Inr \<lparr>keep_output_every_n = 100,
               tokenizer = tk,
               model = m,
               pred_save_dir = save_dir,
               n_step = None,
               tgt_lang = code,
               mt_dataloaders = dls\<rparr>)"

fun bleu_loop :: "(string \<Rightarrow> string \<Rightarrow> real) \<Rightarrow> (string \<times> string) list \<Rightarrow> real list \<Rightarrow> real list" where
  "bleu_loop metric [] bleu_scores_all_sents = bleu_scores_all_sents"
| "bleu_loop metric ((pred, target) # rest) bleu_scores_all_sents =
     bleu_loop metric rest (bleu_scores_all_sents @ [metric pred target])"

text \<open>\<open>torch.mean(torch.stack(xs))\<close>: stacking an empty list raises.\<close>

definition torch_mean_stack :: "real list \<Rightarrow> error + real" where
  "torch_mean_stack xs =
     (if xs = [] then Inl RuntimeError else Inr (sum_list xs / real (length xs)))"

definition get_bleu :: "mt_libs \<Rightarrow> string list \<Rightarrow> string list \<Rightarrow> error + real" where
  "get_bleu libs preds targets =
     torch_mean_stack (bleu_loop (bleu_score libs) (zip preds targets) [])"

text \<open>The arguments of the call of \<open>model.generate\<close> on one batch.\<close>

definition mt_gen_args :: "token \<Rightarrow> batch \<Rightarrow> gen_args" where
  "mt_gen_args start dev_input =
     \<lparr>g_input_ids = input_ids dev_input,
      g_attention_mask = attention_mask dev_input,
      decoder_start_token_id = start,
      forced_bos_token_id = None,
      bad_words_ids = None,
      num_beams = 5\<rparr>"

fun mt_gen_loop ::
  "tokenizer \<Rightarrow> model \<Rightarrow> token \<Rightarrow> batch list \<Rightarrow> string list \<Rightarrow> string list
     \<Rightarrow> string list \<times> string list" where
  "mt_gen_loop tk m start [] pred_translations gold_translations =
     (pred_translations, gold_translations)"
| "mt_gen_loop tk m start (dev_input # rest) pred_translations gold_translations =
     (let predictions = generate m (training m) (mt_gen_args start dev_input);
          mt_translations = batch_decode tk predictions;
          targets = batch_decode tk (labels dev_input)
      in mt_gen_loop tk m start rest
           (pred_translations @ mt_translations) (gold_translations @ targets))"

definition mt_save_to :: "mt_evaluator \<Rightarrow> int option \<Rightarrow> string \<Rightarrow> path" where
  "mt_save_to ev step lang =
     joinpath (joinpath (pred_save_dir ev) (format_step step))
       (take 2 (tgt_lang ev) @ ''-'' @ lang @ ''.'' @ tgt_lang ev)"

definition gen_translations_n_targets ::
  "mt_evaluator \<Rightarrow> string \<Rightarrow> batch list \<Rightarrow> tokenizer \<Rightarrow> model \<Rightarrow> world
     \<Rightarrow> (error + string list \<times> string list) \<times> world" where
  "gen_translations_n_targets ev lang dl tk m w =
     (let start = convert_tokens_to_ids tk [tgt_lang ev] ! 0;
          res = mt_gen_loop tk m start dl [] []
      in case n_step ev of
           None \<Rightarrow> (Inl (AttributeError ''n_step''), w)
         | Some step \<Rightarrow>
             (case save_predictions (fst res) (mt_save_to ev step lang) w of
                (saved, w1) \<Rightarrow> (Inr res, w1)))"

definition eval_translation ::
  "mt_libs \<Rightarrow> mt_evaluator \<Rightarrow> string \<Rightarrow> tokenizer \<Rightarrow> model \<Rightarrow> batch list \<Rightarrow> world
     \<Rightarrow> (error + real) \<times> world" where
  "eval_translation libs ev lang tk m dl w =
     (case gen_translations_n_targets ev lang dl tk m w of
        (Inl e, w1) \<Rightarrow> (Inl e, w1)
      | (Inr (translations, targets), w1) \<Rightarrow> (get_bleu libs translations targets, w1))"

text \<open>The loop of \<open>run_eval\<close> over the keys of the dict.\<close>

fun mt_lang_loop ::
  "mt_libs \<Rightarrow> mt_evaluator \<Rightarrow> string list \<Rightarrow> real list \<Rightarrow> world \<Rightarrow> (error + real list) \<times> world" where
  "mt_lang_loop libs ev [] bleu_scores_all_langs w = (Inr bleu_scores_all_langs, w)"
| "mt_lang_loop libs ev (lang # rest) bleu_scores_all_langs w =
     (case map_of (mt_dataloaders ev) lang of
        None \<Rightarrow> (Inl (KeyError lang), w)
      | Some dl \<Rightarrow>
          (case eval_translation libs ev lang (tokenizer ev) (model ev) dl w of
             (Inl e, w1) \<Rightarrow> (Inl e, w1)
           | (Inr bleu, w1) \<Rightarrow>
               mt_lang_loop libs ev rest (bleu_scores_all_langs @ [bleu])
                 (emit (LogInfo (LogBleu lang (take 2 (tgt_lang ev)) bleu)) w1)))"

definition mt_run_eval ::
  "mt_libs \<Rightarrow> mt_evaluator \<Rightarrow> int option \<Rightarrow> world \<Rightarrow> (error + real) \<times> mt_evaluator \<times> world" where
  "mt_run_eval libs ev0 step w =
     (let ev = ev0\<lparr>n_step := Some step\<rparr>
      in case mt_lang_loop libs ev (map fst (mt_dataloaders ev)) [] w of
           (Inl e, w1) \<Rightarrow> (Inl e, ev, w1)
         | (Inr bleu_scores_all_langs, w1) \<Rightarrow>
             (if bleu_scores_all_langs = [] then Inl ZeroDivisionError
              else Inr (sum_list bleu_scores_all_langs / real (length bleu_scores_all_langs)),
              ev, w1))"

text \<open>
  The words of the claims on \<open>MTEvaluator\<close>: the arithmetic mean of a list of
  scores; the sentence pairs of one language, which are the translations and the
  references that \<open>gen_translations_n_targets\<close> returns, paired up by \<open>zip\<close>; and
  the mean over these pairs of the score of each pair taken alone.
\<close>

definition arith_mean :: "real list \<Rightarrow> real" where
  "arith_mean xs = sum_list xs / real (length xs)"

definition mt_sentence_pairs :: "mt_evaluator \<Rightarrow> batch list \<Rightarrow> (string \<times> string) list" where
  "mt_sentence_pairs ev dl =
     (case mt_gen_loop (tokenizer ev) (model ev)
             (convert_tokens_to_ids (tokenizer ev) [tgt_lang ev] ! 0) dl [] [] of
        (translations, targets) \<Rightarrow> zip translations targets)"

definition sentence_bleu_mean :: "mt_libs \<Rightarrow> (string \<times> string) list \<Rightarrow> real" where
  "sentence_bleu_mean libs pairs =
     arith_mean (map (\<lambda>(pred, target). bleu_score libs pred target) pairs)"

section \<open>Example collaborators and inputs\<close>

text \<open>
  Small concrete collaborators on which the theorems below are run: a tokenizer that
  decodes \<open>[1]\<close> to a well-formed graph and anything else to a malformed one, a model
  that echoes its input rows, a parser that accepts the toy graph and \<open>[ ok ]\<close> only,
  and child processes that exit with a given code.
\<close>

definition stub_tokenizer :: tokenizer where
  "stub_tokenizer =
     \<lparr>convert_token_to_id = (\<lambda>s. int (length s)),
      encode = (\<lambda>s. map (\<lambda>c. int (of_char c)) s),
      decode = (\<lambda>ts. if ts = [1] then ''[ ok ]'' else ''[ broken'')\<rparr>"

definition stub_model :: model where
  "stub_model =
     \<lparr>training = True,
      forward_loss = (\<lambda>mode b. real (length (input_ids b))),
      generate = (\<lambda>mode args. g_input_ids args)\<rparr>"

definition stub_batch :: batch where
  "stub_batch = \<lparr>input_ids = [[1], [2]], attention_mask = [[1], [1]], labels = [[1], [1]]\<rparr>"

definition stub_settings :: settings where
  "stub_settings =
     \<lparr>AMR_SCRIPT = Path False [''amr''],
      CHINESE_VOCAB = Path False [''zh.vocab''],
      CHINESE_VOCAB_PAD = Path False [''zh.pad.vocab''],
      mbart_lang_code_maps = [''en'' \<mapsto> ''en_XX'']\<rparr>"

definition stub_world :: world where
  "stub_world =
     \<lparr>environ = Map.empty,
      files = [Path False [''gold.txt''] \<mapsto> ''[ ok ]'' @ [CHR 0x0A] @ ''[ ok ]'' @ [CHR 0x0A],
               Path False [''sent.txt''] \<mapsto> ''Fine.'' @ [CHR 0x0A] @ ''Hello world'' @ [CHR 0x0A],
               Path False [''gold.amr''] \<mapsto> ''(a)''],
      cwd = Path True [],
      trace = []\<rparr>"

definition stub_parse :: "string \<Rightarrow> error + nat" where
  "stub_parse s =
     (if s = ''[ <root_0> H [ <H_0> D [ <D_0> T [ Highly ] ] S [ <S_0> T [ recommended ] ] ] ]''
      then Inr 0
      else if s = ''[ ok ]'' then Inr 1 else Inl (Raised ''parse''))"

definition stub_ucca_libs :: "nat \<Rightarrow> (nat, nat \<times> string \<times> nat) ucca_libs" where
  "stub_ucca_libs rc =
     \<lparr>parse_ucca = stub_parse,
      convert_tree_to_json = (\<lambda>tree sent i. Inr (tree, sent, i)),
      json_dump = (\<lambda>item. (fst (snd item), None)),
      ucca_spawn = (\<lambda>cmd w. (rc, ''{}'', files w)),
      labeled_primary_f = (\<lambda>output. Inr (JsonNumber 1))\<rparr>"

definition stub_amr_libs :: "nat \<Rightarrow> amr_libs" where
  "stub_amr_libs rc =
     \<lparr>amr_postprocessing = (\<lambda>pred_file sent_file w. (None, files w)),
      amr_spawn =
        (\<lambda>cmd w. (rc, [], (files w)(Path False [''amr'', ''smatch'', ''f_score.txt''] \<mapsto> ''0.5''))),
      float_of_str = (\<lambda>s. if s = ''0.5'' then Inr (1 / 2) else Inl (Raised ''ValueError''))\<rparr>"

definition stub_amr_evaluator :: amr_evaluator where
  "stub_amr_evaluator =
     amr_init stub_tokenizer (Path False [''gold.amr'']) (Path False [''sent.txt''])
       (Path False [''out'']) stub_model [stub_batch] ''en''"

text \<open>The object that \<open>UccaEvaluator(...)\<close> builds in \<open>stub_world\<close>.\<close>

definition stub_ucca_evaluator :: ucca_evaluator where
  "stub_ucca_evaluator =
     \<lparr>keep_output_every_n = 100,
      tokenizer = stub_tokenizer,
      model = model_eval stub_model,
      pred_save_dir = Path False [''out''],
      n_step = None,
      dataloader = [stub_batch],
      src_lang = ''en'',
      split = ''dev'',
      gold_mrp_save_to = Path False [''out'', ''dev.gold.mrp''],
      pred_mrp_save_to = Path False [''out'', ''dev.pred.mrp''],
      toy_graph =
        ''[ <root_0> H [ <H_0> D [ <D_0> T [ Highly ] ] S [ <S_0> T [ recommended ] ] ] ]'',
      toy_sent = ''Highly recommended'',
      gold_graphs = [''[ ok ]'', ''[ ok ]''],
      sents = [''Fine.'', ''Hello world'']\<rparr>"

definition stub_mt_libs :: mt_libs where
  "stub_mt_libs = \<lparr>bleu_score = (\<lambda>pred target. if pred = target then 1 else 0)\<rparr>"

definition stub_mt_evaluator :: mt_evaluator where
  "stub_mt_evaluator =
     \<lparr>keep_output_every_n = 100,
      tokenizer = stub_tokenizer,
      model = stub_model,
      pred_save_dir = Path False [''out''],
      n_step = None,
      tgt_lang = ''en_XX'',
      mt_dataloaders = [(''fr'', [stub_batch]), (''de'', [stub_batch, stub_batch])]\<rparr>"

section \<open>Properties of UccaEvaluator\<close>

subsection \<open>Auxiliary facts on the loops\<close>

lemma delinearize_loop_toy:
  assumes "parse toy = Inr t"
  shows "delinearize_loop parse toy zs trees =
           Inr (trees @ map (\<lambda>(graph, sent). case parse graph of Inr tree \<Rightarrow> tree | Inl err \<Rightarrow> t) zs)"
  using assms by (induction zs arbitrary: trees) (auto split: sum.splits)

lemma splitlines_from_line:
  assumes "\<forall>c \<in> set s. \<not> is_linebreak c"
  shows "splitlines_from cur (s @ CHR 0x0A # rest) = (rev cur @ s) # splitlines_from [] rest"
  using assms
proof (induction s arbitrary: cur)
  case Nil
  show ?case by (cases rest) (simp_all add: is_linebreak_def)
next
  case (Cons a s)
  obtain d cs where dc: "s @ CHR 0x0A # rest = d # cs" by (cases s) auto
  from Cons.prems have na: "\<not> is_linebreak a" and ns: "\<forall>c \<in> set s. \<not> is_linebreak c" by auto
  from na have "a \<noteq> CHR 0x0D" by (auto simp: is_linebreak_def)
  with na have "splitlines_from cur (a # d # cs) = splitlines_from (a # cur) (d # cs)" by simp
  with dc Cons.IH [OF ns, of "a # cur"] show ?case by simp
qed

lemma dump_items_ok:
  assumes "\<forall>item \<in> set data. snd (dump item) = None"
  shows "dump_items dump data out =
           (out @ concat (map (\<lambda>item. fst (dump item) @ [CHR 0x0A]) data), None)"
  using assms by (induction data arbitrary: out) (auto split: prod.splits option.splits)

lemma splitlines_concat:
  assumes "\<forall>l \<in> set ls. \<forall>c \<in> set l. \<not> is_linebreak c"
  shows "splitlines (concat (map (\<lambda>l. l @ [CHR 0x0A]) ls)) = ls"
  unfolding splitlines_def using assms by (induction ls) (simp_all add: splitlines_from_line)

subsection \<open>delinearize_to_tree\<close>

text \<open>
  Claim C9. Provided the parser accepts the fixed toy graph, \<open>delinearize_to_tree\<close>
  returns exactly \<open>min (len graphs) (len sents)\<close> trees, the excess items of the longer
  list being dropped; the tree at index \<open>i\<close> is the parse of graph \<open>i\<close>, or the toy
  tree when that parse fails; and the sentences matter through their number only:
  any other list of sentences of the same length gives the same trees.
\<close>

theorem delinearize_to_tree_min_length:
  assumes toy: "parse_ucca libs (toy_graph ev) = Inr t"
  shows "\<exists>trees. delinearize_to_tree libs ev graphs sentences = Inr trees
           \<and> length trees = min (length graphs) (length sentences)
           \<and> (\<forall>i < length trees.
                 trees ! i = (case parse_ucca libs (graphs ! i) of Inr tree \<Rightarrow> tree | Inl err \<Rightarrow> t))
           \<and> (\<forall>sentences'. length sentences' = length sentences \<longrightarrow>
                 delinearize_to_tree libs ev graphs sentences' = Inr trees)"
proof -
  let ?f = "\<lambda>graph. case parse_ucca libs graph of Inr tree \<Rightarrow> tree | Inl err \<Rightarrow> t"
  have eq: "delinearize_to_tree libs ev graphs ss = Inr (map ?f (take (min (length graphs) (length ss)) graphs))" for ss
  proof -
    have "map (\<lambda>(graph, sent). ?f graph) (zip graphs ss) = map ?f (map fst (zip graphs ss))"
      by (simp add: case_prod_beta)
    then show ?thesis
      by (simp add: delinearize_to_tree_def delinearize_loop_toy [of "parse_ucca libs" "toy_graph ev" t, OF toy] map_fst_zip_take)
  qed
  show ?thesis
    by (rule exI [of _ "map ?f (take (min (length graphs) (length sentences)) graphs)"]) (simp add: eq)
qed

theorem delinearize_to_tree_min_length_witness:
  "parse_ucca (stub_ucca_libs 0) (toy_graph stub_ucca_evaluator) = Inr 0
   \<and> delinearize_to_tree (stub_ucca_libs 0) stub_ucca_evaluator
        [''[ ok ]'', ''[ broken'', ''[ ok ]''] [''Fine.'', ''Hello world''] = Inr [1, 0]"
proof -
  have toy: "parse_ucca (stub_ucca_libs 0) (toy_graph stub_ucca_evaluator) = Inr 0"
    by (simp add: stub_ucca_libs_def stub_ucca_evaluator_def stub_parse_def)
  from delinearize_to_tree_min_length [OF toy, of "[''[ ok ]'', ''[ broken'', ''[ ok ]'']" "[''Fine.'', ''Hello world'']"]
  obtain trees where r: "delinearize_to_tree (stub_ucca_libs 0) stub_ucca_evaluator
        [''[ ok ]'', ''[ broken'', ''[ ok ]''] [''Fine.'', ''Hello world''] = Inr trees"
    and len: "length trees = min (length [''[ ok ]'', ''[ broken'', ''[ ok ]'']) (length [''Fine.'', ''Hello world''])"
    and nth: "\<forall>i < length trees.
                 trees ! i = (case parse_ucca (stub_ucca_libs 0) ([''[ ok ]'', ''[ broken'', ''[ ok ]''] ! i) of Inr tree \<Rightarrow> tree | Inl err \<Rightarrow> 0)"
    by blast
  from len have l2: "length trees = 2" by simp
  from nth l2 have "trees ! 0 = 1" "trees ! 1 = 0"
    by (simp_all add: stub_ucca_libs_def stub_parse_def)
  with l2 have "trees = [1, 0]"
    by (metis (no_types, lifting) One_nat_def Suc_1 length_0_conv length_Suc_conv nth_Cons_0 nth_Cons_Suc)
  with toy r show ?thesis by simp
qed

text \<open>
  Claim C2. On a graph that does not parse, the code puts the toy tree at that index,
  but no sentence is replaced: \<open>toy_sent\<close> is set by the constructor and read nowhere,
  so \<open>reformat_to_mrp\<close> pairs the toy tree with the sentence of the input. Here the
  second graph is malformed; its tree is the toy tree \<open>0\<close>, and the record made for
  it carries \<open>Hello world\<close>, not the toy sentence.
\<close>

theorem toy_sentence_never_used:
  "delinearize_to_tree (stub_ucca_libs 0) stub_ucca_evaluator
     [''[ ok ]'', ''[ broken''] [''Fine.'', ''Hello world''] = Inr [1, 0]
   \<and> reformat_to_mrp (stub_ucca_libs 0) [1, 0] [''Fine.'', ''Hello world'']
       = Inr [(1, ''Fine.'', 0), (0, ''Hello world'', 1)]
   \<and> toy_sent stub_ucca_evaluator = ''Highly recommended''"
  by (simp add: delinearize_to_tree_def reformat_to_mrp_def stub_ucca_libs_def
      stub_ucca_evaluator_def stub_parse_def)

subsection \<open>write_mrp\<close>

text \<open>
  Claim C7. For records that \<open>json.dump\<close> serialises (it does not raise, and its text
  has no line break, as without \<open>indent\<close>), \<open>write_mrp\<close> leaves in the file one
  line per record: the file is the serialisations in input order, each followed by a
  newline; it has \<open>len data\<close> lines; line \<open>i\<close> is the serialisation of record
  \<open>i\<close>; and a parser that reads each serialisation back reads each line back.
\<close>

theorem write_mrp_one_object_per_line:
  assumes ok: "\<forall>item \<in> set data. snd (json_dump libs item) = None"
    and oneline: "\<forall>item \<in> set data. \<forall>c \<in> set (fst (json_dump libs item)). \<not> is_linebreak c"
    and loads: "\<forall>item \<in> set data. loads (fst (json_dump libs item)) = Some item"
  shows "fst (write_mrp libs save_to data w) = None
         \<and> (\<exists>txt. files (snd (write_mrp libs save_to data w)) save_to = Some txt
              \<and> txt = concat (map (\<lambda>item. fst (json_dump libs item) @ [CHR 0x0A]) data)
              \<and> length (splitlines txt) = length data
              \<and> splitlines txt = map (\<lambda>item. fst (json_dump libs item)) data
              \<and> map loads (splitlines txt) = map Some data)"
proof -
  let ?lines = "map (\<lambda>item. fst (json_dump libs item)) data"
  let ?txt = "concat (map (\<lambda>item. fst (json_dump libs item) @ [CHR 0x0A]) data)"
  have cat: "?txt = concat (map (\<lambda>l. l @ [CHR 0x0A]) ?lines)"
    by (simp add: comp_def)
  from oneline have "\<forall>l \<in> set ?lines. \<forall>c \<in> set l. \<not> is_linebreak c" by auto
  then have sl: "splitlines ?txt = ?lines"
    unfolding cat by (rule splitlines_concat)
  from loads have ld: "map loads ?lines = map Some data" by simp
  have wr: "write_mrp libs save_to data w = (None, write_text save_to ?txt w)"
    by (simp add: write_mrp_def dump_items_ok [OF ok])
  have "files (write_text save_to ?txt w) save_to = Some ?txt"
    by (simp add: write_text_def emit_def)
  with wr sl ld show ?thesis by simp
qed

theorem write_mrp_one_object_per_line_witness:
  "splitlines (the (files (snd (write_mrp (stub_ucca_libs 0) (Path False [''out'', ''dev.pred.mrp''])
       [(1, ''Fine.'', 0), (0, ''Hello world'', 1)] stub_world)) (Path False [''out'', ''dev.pred.mrp''])))
     = [''Fine.'', ''Hello world'']"
  using write_mrp_one_object_per_line [of "[(1, ''Fine.'', 0), (0, ''Hello world'', 1)]" "stub_ucca_libs 0"
      "\<lambda>s. if s = ''Fine.'' then Some (1, ''Fine.'', 0) else Some (0, ''Hello world'', 1)"
      "Path False [''out'', ''dev.pred.mrp'']" stub_world]
  by (auto simp add: stub_ucca_libs_def is_linebreak_def)

section \<open>Properties of AmrEvaluator\<close>

subsection \<open>What the primitive steps do to the world\<close>

lemma trace_emit [simp]: "trace (emit e w) = trace w @ [e]"
  and environ_emit [simp]: "environ (emit e w) = environ w"
  and files_emit [simp]: "files (emit e w) = files w"
  and cwd_emit [simp]: "cwd (emit e w) = cwd w"
  by (simp_all add: emit_def)

lemma setenv_simps [simp]:
  "trace (setenv k v w) = trace w @ [SetEnv k v]"
  "environ (setenv k v w) = (environ w)(k \<mapsto> v)"
  "files (setenv k v w) = files w"
  "cwd (setenv k v w) = cwd w"
  by (simp_all add: setenv_def)

lemma chdir_simps [simp]:
  "trace (chdir d w) = trace w @ [Chdir d]"
  "environ (chdir d w) = environ w"
  "files (chdir d w) = files w"
  "cwd (chdir d w) = d"
  by (simp_all add: chdir_def)

lemma check_output_world:
  "trace (snd (check_output sp cmd w)) = trace w @ [Exec cmd]"
  "environ (snd (check_output sp cmd w)) = environ w"
  "cwd (snd (check_output sp cmd w)) = cwd w"
  by (simp_all add: check_output_def split: prod.splits)

lemma check_output_result:
  "fst (check_output sp cmd w) =
     (if fst (sp cmd w) = 0 then Inr (fst (snd (sp cmd w))) else Inl (CalledProcessError (fst (sp cmd w)) cmd))"
  by (simp add: check_output_def split: prod.splits)

lemma check_call_world:
  "trace (snd (check_call sp cmd w)) = trace w @ [Exec cmd]"
  "environ (snd (check_call sp cmd w)) = environ w"
  "cwd (snd (check_call sp cmd w)) = cwd w"
  by (simp_all add: check_call_def check_output_def split: prod.splits sum.splits)

lemma check_call_result:
  "fst (check_call sp cmd w) =
     (if fst (sp cmd w) = 0 then Inr () else Inl (CalledProcessError (fst (sp cmd w)) cmd))"
  by (simp add: check_call_def check_output_def split: prod.splits sum.splits)

lemma cd_alt: "cd dir body w = (fst (body (chdir dir w)), chdir (cwd w) (snd (body (chdir dir w))))"
  by (simp add: cd_def split: prod.splits)

lemma cd_check_call_world:
  "trace (snd (cd dir (check_call sp cmd) w)) = trace w @ [Chdir dir, Exec cmd, Chdir (cwd w)]"
  "environ (snd (cd dir (check_call sp cmd) w)) = environ w"
  "cwd (snd (cd dir (check_call sp cmd) w)) = cwd w"
  by (simp_all add: cd_alt check_call_world)

lemma cd_check_call_result:
  "fst (cd dir (check_call sp cmd) w) =
     (if fst (sp cmd (chdir dir w)) = 0 then Inr ()
      else Inl (CalledProcessError (fst (sp cmd (chdir dir w))) cmd))"
  by (simp add: cd_alt check_call_result)

lemma open_read_world:
  "trace (snd (open_read p w)) = trace w @ [OpenRead p]"
  "environ (snd (open_read p w)) = environ w"
  by (simp_all add: open_read_def split: option.splits)

subsection \<open>compute_smatch\<close>

lemma compute_smatch_missing:
  "\<not> path_exists w ref_path \<Longrightarrow> compute_smatch st libs pred_path ref_path w = (Inl AssertionError, w)"
  by (simp add: compute_smatch_def Let_def)

lemma compute_smatch_environ:
  "environ (snd (compute_smatch st libs pred_path ref_path w)) = environ w"
  using cd_check_call_world(2) [of "AMR_SCRIPT st" "amr_spawn libs" "smatch_cmd (reformatted_path pred_path) ref_path" w]
  by (auto simp add: compute_smatch_def Let_def open_read_def split: prod.splits sum.splits option.splits)

lemma compute_smatch_trace:
  assumes "path_exists w ref_path"
  shows "\<exists>rest. trace (snd (compute_smatch st libs pred_path ref_path w)) =
           trace w @ [Chdir (AMR_SCRIPT st), Exec (smatch_cmd (reformatted_path pred_path) ref_path),
                      Chdir (cwd w)] @ rest
         \<and> set rest \<subseteq> {OpenRead (joinpath (joinpath (AMR_SCRIPT st) ''smatch'') ''f_score.txt'')}"
  using assms cd_check_call_world(1) [of "AMR_SCRIPT st" "amr_spawn libs" "smatch_cmd (reformatted_path pred_path) ref_path" w]
  by (auto simp add: compute_smatch_def Let_def open_read_def split: prod.splits sum.splits option.splits)

lemma compute_smatch_nonzero:
  assumes "path_exists w ref_path"
    and "fst (amr_spawn libs (smatch_cmd (reformatted_path pred_path) ref_path) (chdir (AMR_SCRIPT st) w)) = rc"
    and "rc \<noteq> 0"
  shows "fst (compute_smatch st libs pred_path ref_path w) =
           Inl (CalledProcessError rc (smatch_cmd (reformatted_path pred_path) ref_path))"
  using assms cd_check_call_result [of "AMR_SCRIPT st" "amr_spawn libs" "smatch_cmd (reformatted_path pred_path) ref_path" w]
  by (auto simp add: compute_smatch_def Let_def split: prod.splits sum.splits)

text \<open>
  Claim C3. When the reference file does not exist, \<open>compute_smatch\<close> raises the
  \<open>AssertionError\<close> of its check and leaves the world as it was: no directory change
  and no child process. When the file exists, the process enters the script
  directory and the smatch child is started, with the fixed command; and when that
  child exits with a code other than zero, \<open>compute_smatch\<close> raises the
  \<open>CalledProcessError\<close> carrying that code.
\<close>

theorem compute_smatch_fail_fast:
  "(\<not> path_exists w ref_path \<longrightarrow>
      compute_smatch st libs pred_path ref_path w = (Inl AssertionError, w))
   \<and> (path_exists w ref_path \<longrightarrow>
        (\<exists>rest. trace (snd (compute_smatch st libs pred_path ref_path w)) =
           trace w @ [Chdir (AMR_SCRIPT st), Exec (smatch_cmd (reformatted_path pred_path) ref_path)] @ rest)
        \<and> (\<forall>rc. fst (amr_spawn libs (smatch_cmd (reformatted_path pred_path) ref_path)
                        (chdir (AMR_SCRIPT st) w)) = rc \<and> rc \<noteq> 0 \<longrightarrow>
              fst (compute_smatch st libs pred_path ref_path w) =
                Inl (CalledProcessError rc (smatch_cmd (reformatted_path pred_path) ref_path))))"
proof (intro conjI impI allI)
  assume "\<not> path_exists w ref_path"
  then show "compute_smatch st libs pred_path ref_path w = (Inl AssertionError, w)"
    by (rule compute_smatch_missing)
next
  assume ex: "path_exists w ref_path"
  from compute_smatch_trace [OF ex, of st libs pred_path]
  show "\<exists>rest. trace (snd (compute_smatch st libs pred_path ref_path w)) =
           trace w @ [Chdir (AMR_SCRIPT st), Exec (smatch_cmd (reformatted_path pred_path) ref_path)] @ rest"
    by auto
next
  fix rc
  assume ex: "path_exists w ref_path"
    and rc: "fst (amr_spawn libs (smatch_cmd (reformatted_path pred_path) ref_path)
                        (chdir (AMR_SCRIPT st) w)) = rc \<and> rc \<noteq> 0"
  then show "fst (compute_smatch st libs pred_path ref_path w) =
                Inl (CalledProcessError rc (smatch_cmd (reformatted_path pred_path) ref_path))"
    using compute_smatch_nonzero [of w ref_path libs pred_path st rc] by simp
qed

theorem compute_smatch_fail_fast_witness:
  "\<not> path_exists stub_world (Path False [''none.amr''])
   \<and> compute_smatch stub_settings (stub_amr_libs 1) (Path False [''out'', ''pred.txt.tf''])
        (Path False [''none.amr'']) stub_world = (Inl AssertionError, stub_world)
   \<and> path_exists stub_world (Path False [''gold.amr''])
   \<and> fst (compute_smatch stub_settings (stub_amr_libs 1) (Path False [''out'', ''pred.txt.tf''])
        (Path False [''gold.amr'']) stub_world)
       = Inl (CalledProcessError 1
           [''python'', ''smatch/smatch.py'', ''-f'', ''out/pred.txt.tf.restore.pruned.coref.all.form'',
            ''gold.amr'', ''-r'', ''5'', ''--significant'', ''3''])"
proof -
  have a: "\<not> path_exists stub_world (Path False [''none.amr''])"
    and b: "path_exists stub_world (Path False [''gold.amr''])"
    by (simp_all add: path_exists_def stub_world_def)
  have c: "fst (amr_spawn (stub_amr_libs 1)
             (smatch_cmd (reformatted_path (Path False [''out'', ''pred.txt.tf''])) (Path False [''gold.amr'']))
             (chdir (AMR_SCRIPT stub_settings) stub_world)) = 1"
    by (simp add: stub_amr_libs_def)
  have d: "smatch_cmd (reformatted_path (Path False [''out'', ''pred.txt.tf''])) (Path False [''gold.amr''])
        = [''python'', ''smatch/smatch.py'', ''-f'', ''out/pred.txt.tf.restore.pruned.coref.all.form'',
            ''gold.amr'', ''-r'', ''5'', ''--significant'', ''3'']"
    by (simp add: smatch_cmd_def reformatted_path_def)
  from a b c d
    compute_smatch_fail_fast [of stub_world "Path False [''none.amr'']" stub_settings "stub_amr_libs 1"
      "Path False [''out'', ''pred.txt.tf'']"]
    compute_smatch_fail_fast [of stub_world "Path False [''gold.amr'']" stub_settings "stub_amr_libs 1"
      "Path False [''out'', ''pred.txt.tf'']"]
  show ?thesis by simp
qed

subsection \<open>run_eval\<close>

lemma amr_pred_file_n_step [simp]: "amr_pred_file (ev\<lparr>n_step := n\<rparr>) step = amr_pred_file ev step"
  by (simp add: amr_pred_file_def)

lemma amr_scoring_post_fails:
  assumes "amr_postprocessing libs pf sf (setenv ''TOKENIZERS_PARALLELISM'' ''false'' w) = (Some e, fs)"
  shows "amr_scoring st libs pf sf gf w = (Inl e, (setenv ''TOKENIZERS_PARALLELISM'' ''false'' w)\<lparr>files := fs\<rparr>)"
  using assms by (simp add: amr_scoring_def Let_def)

lemma amr_scoring_post_ok:
  assumes "amr_postprocessing libs pf sf (setenv ''TOKENIZERS_PARALLELISM'' ''false'' w) = (None, fs)"
  shows "amr_scoring st libs pf sf gf w =
     (case compute_smatch st libs pf gf ((setenv ''TOKENIZERS_PARALLELISM'' ''false'' w)\<lparr>files := fs\<rparr>) of
                (Inl e, w2) \<Rightarrow> (Inl e, w2)
              | (Inr smatch, w2) \<Rightarrow>
                  (Inr smatch, setenv ''TOKENIZERS_PARALLELISM'' ''true'' w2))"
  using assms by (simp add: amr_scoring_def Let_def)

lemma amr_run_eval_caught:
  assumes gen: "amr_gen_outputs st (ev\<lparr>n_step := Some step\<rparr>) w = (Inr (preds, losses), w1)"
    and sc: "amr_scoring st libs (amr_pred_file ev step) (sent_path ev) (eval_gold_file ev)
               (snd (save_predictions preds (amr_pred_file ev step) w1)) = (Inl (CalledProcessError rc cmd), w3)"
  shows "amr_run_eval st libs ev step w =
           (Inr (np_mean losses, 0), ev\<lparr>n_step := Some step\<rparr>,
            emit (LogInfo (LogError (CalledProcessError rc cmd))) w3)"
  using gen sc by (simp add: amr_run_eval_def Let_def save_predictions_def)

text \<open>
  Claim C1. Let the generation of \<open>run_eval\<close> have returned, and let \<open>w2\<close> be the
  world at the call of the postprocessing. Whenever the postprocessing raises a
  \<open>CalledProcessError\<close>, or it returns, the gold file exists and the smatch child
  exits with a code \<open>rc\<close> other than zero, \<open>run_eval\<close> does not raise: it returns the
  mean of the losses with the score \<open>0\<close>, and the last thing it did was to log that
  error.
\<close>

theorem amr_run_eval_catches_called_process_error:
  assumes gen: "amr_gen_outputs st (ev\<lparr>n_step := Some step\<rparr>) w = (Inr (preds, losses), w1)"
    and w2: "w2 = setenv ''TOKENIZERS_PARALLELISM'' ''false''
                    (snd (save_predictions preds (amr_pred_file ev step) w1))"
    and fail:
      "amr_postprocessing libs (amr_pred_file ev step) (sent_path ev) w2
         = (Some (CalledProcessError rc cmd), fs)
       \<or> (amr_postprocessing libs (amr_pred_file ev step) (sent_path ev) w2 = (None, fs)
          \<and> path_exists (w2\<lparr>files := fs\<rparr>) (eval_gold_file ev)
          \<and> cmd = smatch_cmd (reformatted_path (amr_pred_file ev step)) (eval_gold_file ev)
          \<and> fst (amr_spawn libs cmd (chdir (AMR_SCRIPT st) (w2\<lparr>files := fs\<rparr>))) = rc
          \<and> rc \<noteq> 0)"
  shows "\<exists>w'. amr_run_eval st libs ev step w
                = (Inr (np_mean losses, 0), ev\<lparr>n_step := Some step\<rparr>, w')
              \<and> last (trace w') = LogInfo (LogError (CalledProcessError rc cmd))"
proof -
  let ?pf = "amr_pred_file ev step"
  let ?w1' = "snd (save_predictions preds ?pf w1)"
  have "\<exists>w3. amr_scoring st libs ?pf (sent_path ev) (eval_gold_file ev) ?w1'
               = (Inl (CalledProcessError rc cmd), w3)"
    using fail
  proof
    assume "amr_postprocessing libs ?pf (sent_path ev) w2 = (Some (CalledProcessError rc cmd), fs)"
    then show ?thesis
      unfolding w2 by (simp add: amr_scoring_post_fails)
  next
    assume b: "amr_postprocessing libs ?pf (sent_path ev) w2 = (None, fs)
          \<and> path_exists (w2\<lparr>files := fs\<rparr>) (eval_gold_file ev)
          \<and> cmd = smatch_cmd (reformatted_path ?pf) (eval_gold_file ev)
          \<and> fst (amr_spawn libs cmd (chdir (AMR_SCRIPT st) (w2\<lparr>files := fs\<rparr>))) = rc
          \<and> rc \<noteq> 0"
    then have ex: "path_exists (w2\<lparr>files := fs\<rparr>) (eval_gold_file ev)"
      and cmd: "cmd = smatch_cmd (reformatted_path ?pf) (eval_gold_file ev)"
      and rc: "fst (amr_spawn libs cmd (chdir (AMR_SCRIPT st) (w2\<lparr>files := fs\<rparr>))) = rc"
      and nz: "rc \<noteq> 0"
      by blast+
    have "fst (compute_smatch st libs ?pf (eval_gold_file ev) (w2\<lparr>files := fs\<rparr>))
                = Inl (CalledProcessError rc cmd)"
      unfolding cmd by (rule compute_smatch_nonzero [OF ex rc [unfolded cmd] nz])
    then obtain w3 where "compute_smatch st libs ?pf (eval_gold_file ev) (w2\<lparr>files := fs\<rparr>)
                = (Inl (CalledProcessError rc cmd), w3)"
      by (cases "compute_smatch st libs ?pf (eval_gold_file ev) (w2\<lparr>files := fs\<rparr>)") simp
    with b show ?thesis
      unfolding w2 by (simp add: amr_scoring_post_ok)
  qed
  then obtain w3 where "amr_scoring st libs ?pf (sent_path ev) (eval_gold_file ev) ?w1'
               = (Inl (CalledProcessError rc cmd), w3)" ..
  from amr_run_eval_caught [OF gen this] show ?thesis by simp
qed

lemma stub_amr_gen:
  "amr_gen_outputs stub_settings (stub_amr_evaluator\<lparr>n_step := Some (Some 3)\<rparr>) stub_world
     = (Inr ([''[ ok ]'', ''[ broken''], [2]), stub_world)"
  by (simp add: amr_gen_outputs_def stub_amr_evaluator_def amr_init_def stub_tokenizer_def
      stub_model_def model_eval_def stub_batch_def amr_gen_args_def batch_decode_def
      convert_tokens_to_ids_def Let_def)

theorem amr_run_eval_catches_called_process_error_witness:
  "amr_gen_outputs stub_settings (stub_amr_evaluator\<lparr>n_step := Some (Some 3)\<rparr>) stub_world
     = (Inr ([''[ ok ]'', ''[ broken''], [2]), stub_world)
   \<and> fst (amr_run_eval stub_settings (stub_amr_libs 1) stub_amr_evaluator (Some 3) stub_world)
       = Inr (Finite 2, 0)"
proof -
  let ?pf = "amr_pred_file stub_amr_evaluator (Some 3)"
  let ?gold = "eval_gold_file stub_amr_evaluator"
  let ?w2 = "setenv ''TOKENIZERS_PARALLELISM'' ''false''
               (snd (save_predictions [''[ ok ]'', ''[ broken''] ?pf stub_world))"
  let ?cmd = "smatch_cmd (reformatted_path ?pf) ?gold"
  have post: "amr_postprocessing (stub_amr_libs 1) ?pf (sent_path stub_amr_evaluator) ?w2
                = (None, files ?w2)"
    by (simp add: stub_amr_libs_def)
  have gold: "?gold = Path False [''gold.amr'']"
    by (simp add: stub_amr_evaluator_def amr_init_def)
  have pf: "?pf = Path False [''out'', ''step_3'', ''en'', ''pred.txt.tf'']"
    by (simp add: amr_pred_file_def stub_amr_evaluator_def amr_init_def format_step_def
        str_int_def digit_def)
  have ex: "path_exists (?w2\<lparr>files := files ?w2\<rparr>) ?gold"
    unfolding gold pf
    by (simp add: path_exists_def save_predictions_def write_text_def stub_world_def)
  have rc: "fst (amr_spawn (stub_amr_libs 1) ?cmd
                  (chdir (AMR_SCRIPT stub_settings) (?w2\<lparr>files := files ?w2\<rparr>))) = 1"
    by (simp add: stub_amr_libs_def)
  from amr_run_eval_catches_called_process_error
         [OF stub_amr_gen refl, of "stub_amr_libs 1" 1 ?cmd "files ?w2"]
       post ex rc
  obtain w' where "amr_run_eval stub_settings (stub_amr_libs 1) stub_amr_evaluator (Some 3) stub_world
                = (Inr (np_mean [2], 0), stub_amr_evaluator\<lparr>n_step := Some (Some 3)\<rparr>, w')"
    by auto
  then show ?thesis
    using stub_amr_gen by (simp add: np_mean_def)
qed

section \<open>The environment flag around the scoring calls\<close>

lemma compute_smatch_events:
  "\<exists>mid. trace (snd (compute_smatch st libs pred_path ref_path w)) = trace w @ mid
         \<and> (\<forall>k v. SetEnv k v \<notin> set mid)
         \<and> (isl (fst (compute_smatch st libs pred_path ref_path w))
              \<or> Exec (smatch_cmd (reformatted_path pred_path) ref_path) \<in> set mid)"
proof (cases "path_exists w ref_path")
  case False
  then show ?thesis by (simp add: compute_smatch_missing)
next
  case True
  from compute_smatch_trace [OF True, of st libs pred_path]
  obtain rest where "trace (snd (compute_smatch st libs pred_path ref_path w)) =
           trace w @ [Chdir (AMR_SCRIPT st), Exec (smatch_cmd (reformatted_path pred_path) ref_path),
                      Chdir (cwd w)] @ rest"
    and "set rest \<subseteq> {OpenRead (joinpath (joinpath (AMR_SCRIPT st) ''smatch'') ''f_score.txt'')}"
    by blast
  then show ?thesis
    by (intro exI [of _ "[Chdir (AMR_SCRIPT st), Exec (smatch_cmd (reformatted_path pred_path) ref_path),
                      Chdir (cwd w)] @ rest"]) auto
qed

lemma amr_scoring_ok:
  assumes "amr_scoring st libs pf sf gf w = (Inr s, w')"
  shows "environ w' ''TOKENIZERS_PARALLELISM'' = Some ''true''
       \<and> (\<exists>mid. trace w' = trace w @ [SetEnv ''TOKENIZERS_PARALLELISM'' ''false''] @ mid
                     @ [SetEnv ''TOKENIZERS_PARALLELISM'' ''true'']
                \<and> Exec (smatch_cmd (reformatted_path pf) gf) \<in> set mid)"
proof -
  let ?w1 = "setenv ''TOKENIZERS_PARALLELISM'' ''false'' w"
  obtain pe fs where post: "amr_postprocessing libs pf sf ?w1 = (pe, fs)" by fastforce
  with assms have pe: "pe = None"
    by (cases pe) (simp_all add: amr_scoring_def Let_def)
  let ?w2 = "?w1\<lparr>files := fs\<rparr>"
  obtain r w3 where cs: "compute_smatch st libs pf gf ?w2 = (r, w3)" by fastforce
  with assms post pe have r: "r = Inr s" and w': "w' = setenv ''TOKENIZERS_PARALLELISM'' ''true'' w3"
    by (cases r; simp add: amr_scoring_def Let_def)+
  from compute_smatch_events [of st libs pf gf ?w2] cs r
  obtain mid where "trace w3 = trace ?w2 @ mid"
    and "Exec (smatch_cmd (reformatted_path pf) gf) \<in> set mid"
    by auto
  then show ?thesis
    unfolding w' by (intro conjI exI [of _ mid]) simp_all
qed

lemma amr_scoring_raises:
  assumes "amr_scoring st libs pf sf gf w = (Inl e, w')"
  shows "environ w' ''TOKENIZERS_PARALLELISM'' = Some ''false''
       \<and> (\<exists>mid. trace w' = trace w @ [SetEnv ''TOKENIZERS_PARALLELISM'' ''false''] @ mid
                \<and> SetEnv ''TOKENIZERS_PARALLELISM'' ''true'' \<notin> set mid)"
proof -
  let ?w1 = "setenv ''TOKENIZERS_PARALLELISM'' ''false'' w"
  obtain pe fs where post: "amr_postprocessing libs pf sf ?w1 = (pe, fs)" by fastforce
  let ?w2 = "?w1\<lparr>files := fs\<rparr>"
  show ?thesis
  proof (cases pe)
    case (Some e')
    with post assms have "w' = ?w2"
      by (simp add: amr_scoring_def Let_def)
    then show ?thesis by simp
  next
    case None
    obtain r w3 where cs: "compute_smatch st libs pf gf ?w2 = (r, w3)" by fastforce
    with assms post None have w': "w' = w3"
      by (cases r) (simp_all add: amr_scoring_def Let_def)
    from compute_smatch_events [of st libs pf gf ?w2] cs
    obtain mid where "trace w3 = trace ?w2 @ mid" and "\<forall>k v. SetEnv k v \<notin> set mid"
      by auto
    moreover from compute_smatch_environ [of st libs pf gf ?w2] cs
    have "environ w3 = environ ?w2" by simp
    ultimately show ?thesis
      unfolding w' by (intro conjI exI [of _ mid]) simp_all
  qed
qed

lemma amr_run_eval_environ:
  assumes gen: "amr_gen_outputs st (ev\<lparr>n_step := Some step\<rparr>) w = (Inr (preds, losses), w1)"
  shows "environ (snd (snd (amr_run_eval st libs ev step w)))
           = environ (snd (amr_scoring st libs (amr_pred_file ev step) (sent_path ev) (eval_gold_file ev)
                        (snd (save_predictions preds (amr_pred_file ev step) w1))))"
  using gen
  by (simp add: amr_run_eval_def Let_def save_predictions_def split: prod.splits sum.splits)

lemma compute_ucca_ok:
  assumes "compute_ucca libs g p w = (Inr s, w')"
  shows "environ w' ''TOKENIZERS_PARALLELISM'' = Some ''true''
       \<and> trace w' = trace w @ [SetEnv ''TOKENIZERS_PARALLELISM'' ''false'', Exec (mtool_cmd g p),
                                SetEnv ''TOKENIZERS_PARALLELISM'' ''true'']"
proof -
  let ?w1 = "setenv ''TOKENIZERS_PARALLELISM'' ''false'' w"
  obtain r w2 where co: "check_output (ucca_spawn libs) (mtool_cmd g p) ?w1 = (r, w2)" by fastforce
  from check_output_world(1) [of "ucca_spawn libs" "mtool_cmd g p" ?w1] co
  have tr: "trace w2 = trace w @ [SetEnv ''TOKENIZERS_PARALLELISM'' ''false'', Exec (mtool_cmd g p)]"
    by simp
  from assms co have "w' = setenv ''TOKENIZERS_PARALLELISM'' ''true'' w2"
    by (auto simp add: compute_ucca_def split: sum.splits)
  with tr show ?thesis by simp
qed

lemma compute_ucca_child_fails:
  assumes "fst (ucca_spawn libs (mtool_cmd g p) (setenv ''TOKENIZERS_PARALLELISM'' ''false'' w)) = rc"
    and "rc \<noteq> 0"
  shows "fst (compute_ucca libs g p w) = Inl (CalledProcessError rc (mtool_cmd g p))
       \<and> environ (snd (compute_ucca libs g p w)) ''TOKENIZERS_PARALLELISM'' = Some ''false''"
  using assms by (auto simp add: compute_ucca_def check_output_def split: prod.splits)

lemma compute_ucca_report_fails:
  assumes "ucca_spawn libs (mtool_cmd g p) (setenv ''TOKENIZERS_PARALLELISM'' ''false'' w) = (0, out, fs)"
    and "labeled_primary_f libs out = Inl e"
  shows "fst (compute_ucca libs g p w) = Inl e
       \<and> environ (snd (compute_ucca libs g p w)) ''TOKENIZERS_PARALLELISM'' = Some ''false''"
  using assms by (simp add: compute_ucca_def check_output_def)

lemma compute_ucca_round_fails:
  assumes "ucca_spawn libs (mtool_cmd g p) (setenv ''TOKENIZERS_PARALLELISM'' ''false'' w) = (0, out, fs)"
    and "labeled_primary_f libs out = Inr v"
    and "py_round3 v = Inl e"
  shows "fst (compute_ucca libs g p w) = Inl e
       \<and> environ (snd (compute_ucca libs g p w)) ''TOKENIZERS_PARALLELISM'' = Some ''true''"
  using assms by (simp add: compute_ucca_def check_output_def)

lemma compute_ucca_raises:
  assumes "compute_ucca libs g p w = (Inl e, w')"
  shows "(environ w' ''TOKENIZERS_PARALLELISM'' = Some ''false''
          \<and> trace w' = trace w @ [SetEnv ''TOKENIZERS_PARALLELISM'' ''false'', Exec (mtool_cmd g p)])
       \<or> (environ w' ''TOKENIZERS_PARALLELISM'' = Some ''true''
          \<and> trace w' = trace w @ [SetEnv ''TOKENIZERS_PARALLELISM'' ''false'', Exec (mtool_cmd g p),
                                   SetEnv ''TOKENIZERS_PARALLELISM'' ''true'']
          \<and> (\<exists>out v. fst (check_output (ucca_spawn libs) (mtool_cmd g p)
                              (setenv ''TOKENIZERS_PARALLELISM'' ''false'' w)) = Inr out
                     \<and> labeled_primary_f libs out = Inr v \<and> py_round3 v = Inl e))"
proof -
  let ?w1 = "setenv ''TOKENIZERS_PARALLELISM'' ''false'' w"
  obtain r w2 where co: "check_output (ucca_spawn libs) (mtool_cmd g p) ?w1 = (r, w2)" by fastforce
  from check_output_world(1,2) [of "ucca_spawn libs" "mtool_cmd g p" ?w1] co
  have tr: "trace w2 = trace w @ [SetEnv ''TOKENIZERS_PARALLELISM'' ''false'', Exec (mtool_cmd g p)]"
    and en: "environ w2 = environ ?w1"
    by simp_all
  show ?thesis
  proof (cases r)
    case (Inl e')
    with assms co have "w' = w2" by (simp add: compute_ucca_def)
    with tr en show ?thesis by simp
  next
    case out: (Inr out)
    show ?thesis
    proof (cases "labeled_primary_f libs out")
      case (Inl e')
      with assms co out have "w' = w2" by (simp add: compute_ucca_def)
      with tr en show ?thesis by simp
    next
      case v: (Inr v)
      with assms co out have "py_round3 v = Inl e"
        and "w' = setenv ''TOKENIZERS_PARALLELISM'' ''true'' w2"
        by (cases "py_round3 v"; simp add: compute_ucca_def)+
      with tr co out v show ?thesis by simp
    qed
  qed
qed

text \<open>
  Claim C6, as the code has it. Both scoring calls set \<open>TOKENIZERS_PARALLELISM\<close> to
  \<open>false\<close> first, and the child process is started after that. When the scoring
  returns, the flag has been set to \<open>true\<close>. A raise before that assignment leaves
  the flag at \<open>false\<close>: in the \<open>try\<close> body of \<open>run_eval\<close> of \<open>AmrEvaluator\<close>
  the assignment is the last statement, so every raise of the body comes before it,
  and the \<open>except\<close> branch logs and goes on, so \<open>run_eval\<close> ends with the flag
  that the body left; in \<open>compute_ucca\<close> a child that exits with a code other than
  zero, or a report from which the score cannot be taken, leaves the flag at
  \<open>false\<close>. In \<open>compute_ucca\<close> the assignment comes before the \<open>round\<close> of the
  \<open>return\<close>, so when \<open>round\<close> raises, the call raises with the flag at \<open>true\<close>;
  that is the only raise of \<open>compute_ucca\<close> with the flag at \<open>true\<close>.
\<close>

theorem tokenizers_parallelism_flag:
  "(\<forall>s w'. amr_scoring st libs pf sf gf w = (Inr s, w') \<longrightarrow>
       environ w' ''TOKENIZERS_PARALLELISM'' = Some ''true''
       \<and> (\<exists>mid. trace w' = trace w @ [SetEnv ''TOKENIZERS_PARALLELISM'' ''false''] @ mid
                     @ [SetEnv ''TOKENIZERS_PARALLELISM'' ''true'']
                \<and> Exec (smatch_cmd (reformatted_path pf) gf) \<in> set mid))
   \<and> (\<forall>e w'. amr_scoring st libs pf sf gf w = (Inl e, w') \<longrightarrow>
       environ w' ''TOKENIZERS_PARALLELISM'' = Some ''false''
       \<and> (\<exists>mid. trace w' = trace w @ [SetEnv ''TOKENIZERS_PARALLELISM'' ''false''] @ mid
                \<and> SetEnv ''TOKENIZERS_PARALLELISM'' ''true'' \<notin> set mid))
   \<and> (\<forall>preds losses w1. amr_gen_outputs st (ev\<lparr>n_step := Some step\<rparr>) w0 = (Inr (preds, losses), w1) \<longrightarrow>
       environ (snd (snd (amr_run_eval st libs ev step w0)))
           = environ (snd (amr_scoring st libs (amr_pred_file ev step) (sent_path ev) (eval_gold_file ev)
                        (snd (save_predictions preds (amr_pred_file ev step) w1)))))
   \<and> (\<forall>s w'. compute_ucca ulibs g p w = (Inr s, w') \<longrightarrow>
       environ w' ''TOKENIZERS_PARALLELISM'' = Some ''true''
       \<and> trace w' = trace w @ [SetEnv ''TOKENIZERS_PARALLELISM'' ''false'', Exec (mtool_cmd g p),
                                SetEnv ''TOKENIZERS_PARALLELISM'' ''true''])
   \<and> (\<forall>e w'. compute_ucca ulibs g p w = (Inl e, w') \<longrightarrow>
         (environ w' ''TOKENIZERS_PARALLELISM'' = Some ''false''
          \<and> trace w' = trace w @ [SetEnv ''TOKENIZERS_PARALLELISM'' ''false'', Exec (mtool_cmd g p)])
       \<or> (environ w' ''TOKENIZERS_PARALLELISM'' = Some ''true''
          \<and> trace w' = trace w @ [SetEnv ''TOKENIZERS_PARALLELISM'' ''false'', Exec (mtool_cmd g p),
                                   SetEnv ''TOKENIZERS_PARALLELISM'' ''true'']
          \<and> (\<exists>out v. fst (check_output (ucca_spawn ulibs) (mtool_cmd g p)
                              (setenv ''TOKENIZERS_PARALLELISM'' ''false'' w)) = Inr out
                     \<and> labeled_primary_f ulibs out = Inr v \<and> py_round3 v = Inl e)))
   \<and> (\<forall>rc. fst (ucca_spawn ulibs (mtool_cmd g p) (setenv ''TOKENIZERS_PARALLELISM'' ''false'' w)) = rc
            \<and> rc \<noteq> 0 \<longrightarrow>
         fst (compute_ucca ulibs g p w) = Inl (CalledProcessError rc (mtool_cmd g p))
         \<and> environ (snd (compute_ucca ulibs g p w)) ''TOKENIZERS_PARALLELISM'' = Some ''false'')
   \<and> (\<forall>out fs e. ucca_spawn ulibs (mtool_cmd g p) (setenv ''TOKENIZERS_PARALLELISM'' ''false'' w)
                     = (0, out, fs)
            \<and> labeled_primary_f ulibs out = Inl e \<longrightarrow>
         fst (compute_ucca ulibs g p w) = Inl e
         \<and> environ (snd (compute_ucca ulibs g p w)) ''TOKENIZERS_PARALLELISM'' = Some ''false'')
   \<and> (\<forall>out fs v e. ucca_spawn ulibs (mtool_cmd g p) (setenv ''TOKENIZERS_PARALLELISM'' ''false'' w)
                     = (0, out, fs)
            \<and> labeled_primary_f ulibs out = Inr v \<and> py_round3 v = Inl e \<longrightarrow>
         fst (compute_ucca ulibs g p w) = Inl e
         \<and> environ (snd (compute_ucca ulibs g p w)) ''TOKENIZERS_PARALLELISM'' = Some ''true'')"
proof (intro conjI allI impI)
  fix s w' assume "amr_scoring st libs pf sf gf w = (Inr s, w')"
  from amr_scoring_ok [OF this]
  show "environ w' ''TOKENIZERS_PARALLELISM'' = Some ''true''"
    and "\<exists>mid. trace w' = trace w @ [SetEnv ''TOKENIZERS_PARALLELISM'' ''false''] @ mid
                     @ [SetEnv ''TOKENIZERS_PARALLELISM'' ''true'']
                \<and> Exec (smatch_cmd (reformatted_path pf) gf) \<in> set mid"
    by blast+
next
  fix e w' assume "amr_scoring st libs pf sf gf w = (Inl e, w')"
  from amr_scoring_raises [OF this]
  show "environ w' ''TOKENIZERS_PARALLELISM'' = Some ''false''"
    and "\<exists>mid. trace w' = trace w @ [SetEnv ''TOKENIZERS_PARALLELISM'' ''false''] @ mid
                \<and> SetEnv ''TOKENIZERS_PARALLELISM'' ''true'' \<notin> set mid"
    by blast+
next
  fix preds losses w1
  assume "amr_gen_outputs st (ev\<lparr>n_step := Some step\<rparr>) w0 = (Inr (preds, losses), w1)"
  then show "environ (snd (snd (amr_run_eval st libs ev step w0)))
           = environ (snd (amr_scoring st libs (amr_pred_file ev step) (sent_path ev) (eval_gold_file ev)
                        (snd (save_predictions preds (amr_pred_file ev step) w1))))"
    by (rule amr_run_eval_environ)
next
  fix s w' assume "compute_ucca ulibs g p w = (Inr s, w')"
  from compute_ucca_ok [OF this]
  show "environ w' ''TOKENIZERS_PARALLELISM'' = Some ''true''"
    and "trace w' = trace w @ [SetEnv ''TOKENIZERS_PARALLELISM'' ''false'', Exec (mtool_cmd g p),
                                SetEnv ''TOKENIZERS_PARALLELISM'' ''true'']"
    by blast+
next
  fix e w' assume "compute_ucca ulibs g p w = (Inl e, w')"
  then show "(environ w' ''TOKENIZERS_PARALLELISM'' = Some ''false''
          \<and> trace w' = trace w @ [SetEnv ''TOKENIZERS_PARALLELISM'' ''false'', Exec (mtool_cmd g p)])
       \<or> (environ w' ''TOKENIZERS_PARALLELISM'' = Some ''true''
          \<and> trace w' = trace w @ [SetEnv ''TOKENIZERS_PARALLELISM'' ''false'', Exec (mtool_cmd g p),
                                   SetEnv ''TOKENIZERS_PARALLELISM'' ''true'']
          \<and> (\<exists>out v. fst (check_output (ucca_spawn ulibs) (mtool_cmd g p)
                              (setenv ''TOKENIZERS_PARALLELISM'' ''false'' w)) = Inr out
                     \<and> labeled_primary_f ulibs out = Inr v \<and> py_round3 v = Inl e))"
    by (rule compute_ucca_raises)
next
  fix rc
  assume "fst (ucca_spawn ulibs (mtool_cmd g p) (setenv ''TOKENIZERS_PARALLELISM'' ''false'' w)) = rc
            \<and> rc \<noteq> 0"
  then have a: "fst (ucca_spawn ulibs (mtool_cmd g p) (setenv ''TOKENIZERS_PARALLELISM'' ''false'' w)) = rc"
    and b: "rc \<noteq> 0" by blast+
  from compute_ucca_child_fails [OF a b]
  show "fst (compute_ucca ulibs g p w) = Inl (CalledProcessError rc (mtool_cmd g p))"
    and "environ (snd (compute_ucca ulibs g p w)) ''TOKENIZERS_PARALLELISM'' = Some ''false''"
    by blast+
next
  fix out fs e
  assume "ucca_spawn ulibs (mtool_cmd g p) (setenv ''TOKENIZERS_PARALLELISM'' ''false'' w) = (0, out, fs)
            \<and> labeled_primary_f ulibs out = Inl e"
  then have a: "ucca_spawn ulibs (mtool_cmd g p) (setenv ''TOKENIZERS_PARALLELISM'' ''false'' w) = (0, out, fs)"
    and b: "labeled_primary_f ulibs out = Inl e" by blast+
  from compute_ucca_report_fails [OF a b]
  show "fst (compute_ucca ulibs g p w) = Inl e"
    and "environ (snd (compute_ucca ulibs g p w)) ''TOKENIZERS_PARALLELISM'' = Some ''false''"
    by blast+
next
  fix out fs v e
  assume "ucca_spawn ulibs (mtool_cmd g p) (setenv ''TOKENIZERS_PARALLELISM'' ''false'' w) = (0, out, fs)
            \<and> labeled_primary_f ulibs out = Inr v \<and> py_round3 v = Inl e"
  then have a: "ucca_spawn ulibs (mtool_cmd g p) (setenv ''TOKENIZERS_PARALLELISM'' ''false'' w) = (0, out, fs)"
    and b: "labeled_primary_f ulibs out = Inr v" and c: "py_round3 v = Inl e" by blast+
  from compute_ucca_round_fails [OF a b c]
  show "fst (compute_ucca ulibs g p w) = Inl e"
    and "environ (snd (compute_ucca ulibs g p w)) ''TOKENIZERS_PARALLELISM'' = Some ''true''"
    by blast+
qed

text \<open>
  Claim C6, as stated, fails when the scoring fails: with a smatch child that exits
  with code 1, \<open>run_eval\<close> returns the score \<open>0\<close> and the flag is \<open>false\<close>
  afterwards; with an mtool child that exits with code 1, \<open>compute_ucca\<close> raises and
  the flag is \<open>false\<close> afterwards.
\<close>

theorem flag_left_false_counterexample:
  "fst (amr_run_eval stub_settings (stub_amr_libs 1) stub_amr_evaluator (Some 3) stub_world)
     = Inr (Finite 2, 0)
   \<and> environ (snd (snd (amr_run_eval stub_settings (stub_amr_libs 1) stub_amr_evaluator (Some 3) stub_world)))
       ''TOKENIZERS_PARALLELISM'' = Some ''false''
   \<and> fst (compute_ucca (stub_ucca_libs 1) (Path False [''out'', ''dev.gold.mrp''])
          (Path False [''out'', ''dev.pred.mrp'']) stub_world)
       = Inl (CalledProcessError 1 [''mtool'', ''--score'', ''ucca'', ''--read'', ''mrp'', ''--gold'',
                ''out/dev.gold.mrp'', ''out/dev.pred.mrp''])
   \<and> environ (snd (compute_ucca (stub_ucca_libs 1) (Path False [''out'', ''dev.gold.mrp''])
          (Path False [''out'', ''dev.pred.mrp'']) stub_world))
       ''TOKENIZERS_PARALLELISM'' = Some ''false''"
  by (simp add: amr_run_eval_def Let_def save_predictions_def amr_scoring_def
      amr_gen_outputs_def stub_tokenizer_def stub_model_def model_eval_def stub_batch_def
      amr_gen_args_def batch_decode_def convert_tokens_to_ids_def
      compute_smatch_def stub_amr_libs_def path_exists_def write_text_def stub_world_def
      stub_amr_evaluator_def amr_init_def cd_alt check_call_def check_output_def
      compute_ucca_def stub_ucca_libs_def mtool_cmd_def np_mean_def smatch_cmd_def)

theorem tokenizers_parallelism_flag_witness:
  "fst (amr_scoring stub_settings (stub_amr_libs 0) (Path False [''out'', ''pred.txt.tf''])
          (Path False [''sent.txt'']) (Path False [''gold.amr'']) stub_world) = Inr (1 / 2)
   \<and> environ (snd (amr_scoring stub_settings (stub_amr_libs 0) (Path False [''out'', ''pred.txt.tf''])
          (Path False [''sent.txt'']) (Path False [''gold.amr'']) stub_world))
        ''TOKENIZERS_PARALLELISM'' = Some ''true''
   \<and> fst (compute_ucca (stub_ucca_libs 0) (Path False [''out'', ''dev.gold.mrp''])
          (Path False [''out'', ''dev.pred.mrp'']) stub_world) = Inr 1
   \<and> environ (snd (compute_ucca (stub_ucca_libs 0) (Path False [''out'', ''dev.gold.mrp''])
          (Path False [''out'', ''dev.pred.mrp'']) stub_world))
        ''TOKENIZERS_PARALLELISM'' = Some ''true''
   \<and> fst (compute_ucca ((stub_ucca_libs 0)\<lparr>labeled_primary_f := (\<lambda>output. Inr JsonOther)\<rparr>)
          (Path False [''out'', ''dev.gold.mrp'']) (Path False [''out'', ''dev.pred.mrp'']) stub_world)
        = Inl TypeError
   \<and> environ (snd (compute_ucca ((stub_ucca_libs 0)\<lparr>labeled_primary_f := (\<lambda>output. Inr JsonOther)\<rparr>)
          (Path False [''out'', ''dev.gold.mrp'']) (Path False [''out'', ''dev.pred.mrp'']) stub_world))
        ''TOKENIZERS_PARALLELISM'' = Some ''true''"
proof -
  let ?a = "amr_scoring stub_settings (stub_amr_libs 0) (Path False [''out'', ''pred.txt.tf''])
          (Path False [''sent.txt'']) (Path False [''gold.amr'']) stub_world"
  let ?g = "Path False [''out'', ''dev.gold.mrp'']"
  let ?p = "Path False [''out'', ''dev.pred.mrp'']"
  let ?u = "compute_ucca (stub_ucca_libs 0) ?g ?p stub_world"
  let ?bad = "(stub_ucca_libs 0)\<lparr>labeled_primary_f := (\<lambda>output. Inr JsonOther)\<rparr>"
  have a: "fst ?a = Inr (1 / 2)"
    by (simp add: amr_scoring_def Let_def compute_smatch_def stub_amr_libs_def path_exists_def
        stub_world_def cd_alt check_call_def check_output_def open_read_def stub_settings_def
        strip_def is_space_def)
  have u: "fst ?u = Inr 1"
    by (simp add: compute_ucca_def stub_ucca_libs_def check_output_def py_round3_def round3_def
        round_half_even_def Let_def)
  from a have a': "?a = (Inr (1 / 2), snd ?a)" by (simp add: prod_eq_iff)
  from u have u': "?u = (Inr 1, snd ?u)" by (simp add: prod_eq_iff)
  from tokenizers_parallelism_flag
         [where st = stub_settings and libs = "stub_amr_libs 0"
            and pf = "Path False [''out'', ''pred.txt.tf'']" and sf = "Path False [''sent.txt'']"
            and gf = "Path False [''gold.amr'']" and w = stub_world
            and ulibs = "stub_ucca_libs 0" and g = ?g and p = ?p
            and ev = stub_amr_evaluator and step = "Some 3" and ?w0.0 = stub_world]
       a' u'
  have ok: "environ (snd ?a) ''TOKENIZERS_PARALLELISM'' = Some ''true''"
    "environ (snd ?u) ''TOKENIZERS_PARALLELISM'' = Some ''true''"
    by blast+
  have sp: "ucca_spawn ?bad (mtool_cmd ?g ?p) (setenv ''TOKENIZERS_PARALLELISM'' ''false'' stub_world)
              = (0, ''{}'', files stub_world)"
    by (simp add: stub_ucca_libs_def)
  have lf: "labeled_primary_f ?bad ''{}'' = Inr JsonOther"
    by simp
  have rd: "py_round3 JsonOther = Inl TypeError"
    by (simp add: py_round3_def)
  from tokenizers_parallelism_flag
         [where st = stub_settings and libs = "stub_amr_libs 0"
            and pf = "Path False [''out'', ''pred.txt.tf'']" and sf = "Path False [''sent.txt'']"
            and gf = "Path False [''gold.amr'']" and w = stub_world
            and ulibs = ?bad and g = ?g and p = ?p
            and ev = stub_amr_evaluator and step = "Some 3" and ?w0.0 = stub_world]
       sp lf rd
  have bad: "fst (compute_ucca ?bad ?g ?p stub_world) = Inl TypeError"
    "environ (snd (compute_ucca ?bad ?g ?p stub_world)) ''TOKENIZERS_PARALLELISM'' = Some ''true''"
    by blast+
  from a u ok bad show ?thesis by simp
qed

section \<open>The generation loops\<close>

lemma amr_gen_loop_eq:
  "amr_gen_loop tk m start bad dl preds losses =
     (preds @ concat (map (\<lambda>b. batch_decode tk (generate m (training m) (amr_gen_args tk start bad b))) dl),
      losses @ map (forward_loss m (training m)) dl)"
  by (induction dl arbitrary: preds losses) (simp_all add: Let_def)

lemma ucca_gen_loop_eq:
  "ucca_gen_loop tk m start dl preds losses =
     (preds @ concat (map (\<lambda>b. batch_decode tk (generate m (training m) (ucca_gen_args tk start b))) dl),
      losses @ map (forward_loss m (training m)) dl)"
  by (induction dl arbitrary: preds losses) (simp_all add: Let_def)

lemma length_concat_const:
  assumes "\<forall>b \<in> set dl. length (f b) = B"
  shows "length (concat (map f dl)) = length dl * B"
  using assms by (induction dl) simp_all

lemma amr_gen_outputs_returns:
  assumes "src_lang ev = ''zh'' \<longrightarrow> (\<exists>ids w'. chinese_bad_words st (tokenizer ev) w = (Inr ids, w'))"
  shows "\<exists>bad w'. amr_gen_outputs st ev w =
           (Inr (amr_gen_loop (tokenizer ev) (model ev)
                   (convert_tokens_to_ids (tokenizer ev) [''amr''] ! 0) bad (dataloader ev) [] []), w')"
proof (cases "src_lang ev = ''zh''")
  case True
  with assms obtain ids w' where "chinese_bad_words st (tokenizer ev) w = (Inr ids, w')" by blast
  with True show ?thesis
    by (intro exI [of _ "Some ids"] exI [of _ w']) (simp add: amr_gen_outputs_def Let_def)
next
  case False
  then show ?thesis
    by (intro exI [of _ None] exI [of _ w]) (simp add: amr_gen_outputs_def Let_def)
qed

lemma ucca_gen_outputs_returns:
  assumes "n_step ev = Some step"
  shows "\<exists>w'. ucca_gen_outputs ev w =
           (Inr (ucca_gen_loop (tokenizer ev) (model ev)
                   (convert_tokens_to_ids (tokenizer ev) [''ucca''] ! 0) (dataloader ev) [] []), w')"
  using assms by (simp add: ucca_gen_outputs_def save_prediction_raw_def Let_def)

text \<open>
  Claim C4, as the code has it. Take a dataloader of \<open>N\<close> batches of \<open>B\<close> rows
  each and a model whose \<open>generate\<close> returns one sequence per input row. Then
  \<open>gen_outputs\<close> of \<open>AmrEvaluator\<close>, when the source language is not \<open>zh\<close> or the
  set-up of the bad word ids does not raise, and \<open>gen_outputs\<close> of \<open>UccaEvaluator\<close>,
  once \<open>run_eval\<close> has stored \<open>n_step\<close>, return: the predictions are the decoded
  outputs of the batches, batch after batch, \<open>N * B\<close> of them, and the losses are
  those of the batches in order, \<open>N\<close> of them.
\<close>

theorem gen_outputs_counts:
  assumes rows: "\<forall>b \<in> set dl. length (input_ids b) = B"
    and one_per_row: "\<forall>mode args. length (generate m mode args) = length (g_input_ids args)"
    and amr: "dataloader aev = dl \<and> model aev = m"
    and amr_setup:
      "src_lang aev = ''zh'' \<longrightarrow> (\<exists>ids w'. chinese_bad_words st (tokenizer aev) w = (Inr ids, w'))"
    and ucca: "dataloader uev = dl \<and> model uev = m"
    and stepped: "n_step uev = Some step"
  shows "(\<exists>preds losses w' start bad.
            amr_gen_outputs st aev w = (Inr (preds, losses), w')
            \<and> length preds = length dl * B \<and> length losses = length dl
            \<and> preds = concat (map (\<lambda>b. batch_decode (tokenizer aev)
                                 (generate m (training m) (amr_gen_args (tokenizer aev) start bad b))) dl)
            \<and> losses = map (forward_loss m (training m)) dl)
       \<and> (\<exists>preds losses w' start.
            ucca_gen_outputs uev w = (Inr (preds, losses), w')
            \<and> length preds = length dl * B \<and> length losses = length dl
            \<and> preds = concat (map (\<lambda>b. batch_decode (tokenizer uev)
                                 (generate m (training m) (ucca_gen_args (tokenizer uev) start b))) dl)
            \<and> losses = map (forward_loss m (training m)) dl)"
proof
  from amr_gen_outputs_returns [OF amr_setup] obtain bad w' where
    r: "amr_gen_outputs st aev w =
           (Inr (amr_gen_loop (tokenizer aev) (model aev)
                   (convert_tokens_to_ids (tokenizer aev) [''amr''] ! 0) bad (dataloader aev) [] []), w')"
    by blast
  let ?start = "convert_tokens_to_ids (tokenizer aev) [''amr''] ! 0"
  let ?f = "\<lambda>b. batch_decode (tokenizer aev) (generate m (training m) (amr_gen_args (tokenizer aev) ?start bad b))"
  have "\<forall>b \<in> set dl. length (?f b) = B"
    using rows one_per_row by (simp add: batch_decode_def amr_gen_args_def)
  then have len: "length (concat (map ?f dl)) = length dl * B"
    by (rule length_concat_const)
  from r amr have "amr_gen_outputs st aev w =
      (Inr (concat (map ?f dl), map (forward_loss m (training m)) dl), w')"
    by (simp add: amr_gen_loop_eq)
  with len show "\<exists>preds losses w' start bad.
            amr_gen_outputs st aev w = (Inr (preds, losses), w')
            \<and> length preds = length dl * B \<and> length losses = length dl
            \<and> preds = concat (map (\<lambda>b. batch_decode (tokenizer aev)
                                 (generate m (training m) (amr_gen_args (tokenizer aev) start bad b))) dl)
            \<and> losses = map (forward_loss m (training m)) dl"
    by (intro exI [of _ "concat (map ?f dl)"] exI [of _ "map (forward_loss m (training m)) dl"]
        exI [of _ w'] exI [of _ ?start] exI [of _ bad]) simp
next
  from ucca_gen_outputs_returns [OF stepped] obtain w' where
    r: "ucca_gen_outputs uev w =
           (Inr (ucca_gen_loop (tokenizer uev) (model uev)
                   (convert_tokens_to_ids (tokenizer uev) [''ucca''] ! 0) (dataloader uev) [] []), w')"
    by blast
  let ?start = "convert_tokens_to_ids (tokenizer uev) [''ucca''] ! 0"
  let ?f = "\<lambda>b. batch_decode (tokenizer uev) (generate m (training m) (ucca_gen_args (tokenizer uev) ?start b))"
  have "\<forall>b \<in> set dl. length (?f b) = B"
    using rows one_per_row by (simp add: batch_decode_def ucca_gen_args_def)
  then have len: "length (concat (map ?f dl)) = length dl * B"
    by (rule length_concat_const)
  from r ucca have "ucca_gen_outputs uev w =
      (Inr (concat (map ?f dl), map (forward_loss m (training m)) dl), w')"
    by (simp add: ucca_gen_loop_eq)
  with len show "\<exists>preds losses w' start.
            ucca_gen_outputs uev w = (Inr (preds, losses), w')
            \<and> length preds = length dl * B \<and> length losses = length dl
            \<and> preds = concat (map (\<lambda>b. batch_decode (tokenizer uev)
                                 (generate m (training m) (ucca_gen_args (tokenizer uev) start b))) dl)
            \<and> losses = map (forward_loss m (training m)) dl"
    by (intro exI [of _ "concat (map ?f dl)"] exI [of _ "map (forward_loss m (training m)) dl"]
        exI [of _ w'] exI [of _ ?start]) simp
qed

lemma stub_ucca_init:
  "ucca_init stub_tokenizer (Path False [''gold.txt'']) (Path False [''sent.txt''])
        (Path False [''out'']) stub_model [stub_batch] ''dev'' ''en'' stub_world
      = (Inr stub_ucca_evaluator,
         stub_world\<lparr>trace := [OpenRead (Path False [''gold.txt'']), OpenRead (Path False [''sent.txt''])]\<rparr>)"
  by (simp add: ucca_init_def open_read_def stub_world_def emit_def splitlines_def
      is_linebreak_def stub_ucca_evaluator_def)

theorem gen_outputs_counts_witness:
  "(\<exists>w'. amr_gen_outputs stub_settings
            (stub_amr_evaluator\<lparr>dataloader := [stub_batch, stub_batch]\<rparr>) stub_world
       = (Inr ([''[ ok ]'', ''[ broken'', ''[ ok ]'', ''[ broken''], [2, 2]), w'))
   \<and> (\<exists>w'. ucca_gen_outputs
            (stub_ucca_evaluator\<lparr>n_step := Some (Some 3), dataloader := [stub_batch, stub_batch]\<rparr>)
            stub_world
       = (Inr ([''[ ok ]'', ''[ broken'', ''[ ok ]'', ''[ broken''], [2, 2]), w'))"
proof -
  let ?aev = "stub_amr_evaluator\<lparr>dataloader := [stub_batch, stub_batch]\<rparr>"
  let ?uev = "stub_ucca_evaluator\<lparr>n_step := Some (Some 3), dataloader := [stub_batch, stub_batch]\<rparr>"
  let ?m = "model_eval stub_model"
  have rows: "\<forall>b \<in> set [stub_batch, stub_batch]. length (input_ids b) = 2"
    by (simp add: stub_batch_def)
  have one: "\<forall>mode args. length (generate ?m mode args) = length (g_input_ids args)"
    by (simp add: stub_model_def model_eval_def)
  have amr: "dataloader ?aev = [stub_batch, stub_batch] \<and> model ?aev = ?m"
    by (simp add: stub_amr_evaluator_def amr_init_def)
  have zhs: "src_lang ?aev = ''zh'' \<longrightarrow>
      (\<exists>ids w'. chinese_bad_words stub_settings (tokenizer ?aev) stub_world = (Inr ids, w'))"
    by (simp add: stub_amr_evaluator_def amr_init_def)
  have ucca: "dataloader ?uev = [stub_batch, stub_batch] \<and> model ?uev = ?m"
    by (simp add: stub_ucca_evaluator_def)
  have stepped: "n_step ?uev = Some (Some 3)"
    by simp
  have dec: "batch_decode stub_tokenizer (generate ?m (training ?m) args)
               = map (decode stub_tokenizer) (g_input_ids args)" for args
    by (simp add: batch_decode_def stub_model_def model_eval_def)
  have tka: "tokenizer ?aev = stub_tokenizer"
    by (simp add: stub_amr_evaluator_def amr_init_def)
  have tku: "tokenizer ?uev = stub_tokenizer"
    by (simp add: stub_ucca_evaluator_def)
  have fl: "forward_loss ?m (training ?m) stub_batch = 2"
    by (simp add: stub_model_def model_eval_def stub_batch_def)
  have out: "map (decode stub_tokenizer) (input_ids stub_batch) = [''[ ok ]'', ''[ broken'']"
    by (simp add: stub_tokenizer_def stub_batch_def)
  from gen_outputs_counts [OF rows one amr zhs ucca stepped]
  show ?thesis
    unfolding tka tku dec
    by (simp add: fl out amr_gen_args_def ucca_gen_args_def)
qed

text \<open>
  Claim C4, as stated, fails where \<open>gen_outputs\<close> does not return. On the object
  that the constructor of \<open>UccaEvaluator\<close> builds, \<open>gen_outputs\<close> runs the loop and
  then raises in \<open>save_prediction_raw\<close>, which reads the attribute \<open>n_step\<close> that
  only \<open>run_eval\<close> creates. For \<open>AmrEvaluator\<close> with the source language \<open>zh\<close>, a
  padded sub-token that tokenises to no id (here an empty line) raises at
  \<open>bad_word_id[-1]\<close>, before the loop.
\<close>

theorem gen_outputs_before_run_eval_counterexample:
  "fst (ucca_init stub_tokenizer (Path False [''gold.txt'']) (Path False [''sent.txt''])
        (Path False [''out'']) stub_model [stub_batch] ''dev'' ''en'' stub_world)
     = Inr stub_ucca_evaluator
   \<and> fst (ucca_gen_outputs stub_ucca_evaluator stub_world) = Inl (AttributeError ''n_step'')
   \<and> fst (amr_gen_outputs stub_settings
            (amr_init stub_tokenizer (Path False [''gold.amr'']) (Path False [''sent.txt''])
               (Path False [''out'']) stub_model [stub_batch] ''zh'')
            (stub_world\<lparr>files := (files stub_world)
               (Path False [''zh.vocab''] \<mapsto> ''a'' @ [CHR 0x0A],
                Path False [''zh.pad.vocab''] \<mapsto> ''b'' @ [CHR 0x0A, CHR 0x0A])\<rparr>))
       = Inl IndexError"
proof -
  have "fst (ucca_gen_outputs stub_ucca_evaluator stub_world) = Inl (AttributeError ''n_step'')"
    by (simp add: ucca_gen_outputs_def save_prediction_raw_def stub_ucca_evaluator_def Let_def)
  moreover have "fst (amr_gen_outputs stub_settings
            (amr_init stub_tokenizer (Path False [''gold.amr'']) (Path False [''sent.txt''])
               (Path False [''out'']) stub_model [stub_batch] ''zh'')
            (stub_world\<lparr>files := (files stub_world)
               (Path False [''zh.vocab''] \<mapsto> ''a'' @ [CHR 0x0A],
                Path False [''zh.pad.vocab''] \<mapsto> ''b'' @ [CHR 0x0A, CHR 0x0A])\<rparr>))
       = Inl IndexError"
    by (simp add: Let_def amr_gen_outputs_def amr_init_def chinese_bad_words_def open_read_def
        stub_settings_def stub_world_def readlines_def rstrip_nl_def tokenize_all_def
        stub_tokenizer_def)
  ultimately show ?thesis
    by (simp add: stub_ucca_init)
qed

section \<open>What run_eval of UccaEvaluator reads, writes and keeps\<close>

lemma reads_of_append [simp]: "reads_of (xs @ ys) = reads_of xs @ reads_of ys"
  by (induction xs rule: reads_of.induct) simp_all

lemma writes_of_append [simp]: "writes_of (xs @ ys) = writes_of xs @ writes_of ys"
  by (induction xs rule: writes_of.induct) simp_all

lemma ucca_gen_outputs_trace:
  assumes "ucca_gen_outputs ev w = (r, w1)"
  shows "trace w1 = trace w @
           (case n_step ev of
              None \<Rightarrow> []
            | Some n \<Rightarrow> [Mkdir (joinpath (pred_save_dir ev) (format_step n)),
                         OpenWrite (joinpath (joinpath (pred_save_dir ev) (format_step n)) ''ucca.pred.tf'')])"
  using assms
  by (auto simp add: ucca_gen_outputs_def save_prediction_raw_def write_text_def Let_def
      split: option.splits)

lemma write_mrp_trace:
  assumes "write_mrp libs p data w = (r, w1)"
  shows "trace w1 = trace w @ [OpenWrite p]"
  using assms by (auto simp add: write_mrp_def write_text_def split: prod.splits)

lemma write_mrp_files:
  "files (snd (write_mrp libs p data w)) p = Some (fst (dump_items (json_dump libs) data []))"
  by (simp add: write_mrp_def write_text_def split: prod.splits)

lemma compute_ucca_reads_writes:
  assumes "compute_ucca libs g p w = (r, w1)"
  shows "reads_of (trace w1) = reads_of (trace w) \<and> writes_of (trace w1) = writes_of (trace w)"
proof (cases r)
  case (Inl e)
  with assms compute_ucca_raises [of libs g p w e w1] show ?thesis by auto
next
  case (Inr s)
  with assms compute_ucca_ok [of libs g p w s w1] show ?thesis by simp
qed

lemma ucca_run_eval_evaluator:
  "fst (snd (ucca_run_eval libs ev step w)) = ev\<lparr>n_step := Some step\<rparr>"
  by (simp add: ucca_run_eval_def Let_def split: prod.splits sum.splits option.splits)

lemma ucca_run_eval_reads:
  "reads_of (trace (snd (snd (ucca_run_eval libs ev step w)))) = reads_of (trace w)"
  by (auto simp add: ucca_run_eval_def Let_def split: prod.splits sum.splits option.splits
      dest!: ucca_gen_outputs_trace write_mrp_trace compute_ucca_reads_writes)

lemma ucca_run_eval_writes:
  "\<exists>k. writes_of (trace (snd (snd (ucca_run_eval libs ev step w)))) =
         writes_of (trace w) @
         take k [joinpath (joinpath (pred_save_dir ev) (format_step step)) ''ucca.pred.tf'',
                 gold_mrp_save_to ev, pred_mrp_save_to ev]"
proof -
  let ?l = "[joinpath (joinpath (pred_save_dir ev) (format_step step)) ''ucca.pred.tf'',
                 gold_mrp_save_to ev, pred_mrp_save_to ev]"
  have "writes_of (trace (snd (snd (ucca_run_eval libs ev step w)))) = writes_of (trace w) @ take 1 ?l
      \<or> writes_of (trace (snd (snd (ucca_run_eval libs ev step w)))) = writes_of (trace w) @ take 2 ?l
      \<or> writes_of (trace (snd (snd (ucca_run_eval libs ev step w)))) = writes_of (trace w) @ take 3 ?l"
    by (auto simp add: ucca_run_eval_def Let_def split: prod.splits sum.splits option.splits
        dest!: ucca_gen_outputs_trace write_mrp_trace compute_ucca_reads_writes)
  then show ?thesis by blast
qed

lemma ucca_run_eval_writes_ok:
  assumes "fst (ucca_run_eval libs ev step w) = Inr r"
  shows "writes_of (trace (snd (snd (ucca_run_eval libs ev step w)))) =
         writes_of (trace w) @
           [joinpath (joinpath (pred_save_dir ev) (format_step step)) ''ucca.pred.tf'',
            gold_mrp_save_to ev, pred_mrp_save_to ev]"
proof -
  from assms obtain predictions losses w1 gm pm w2 w3 w4 where
    g: "ucca_gen_outputs (ev\<lparr>n_step := Some step\<rparr>) w = (Inr (predictions, losses), w1)"
    and a: "write_mrp libs (gold_mrp_save_to ev) gm w1 = (None, w2)"
    and b: "write_mrp libs (pred_mrp_save_to ev) pm w2 = (None, w3)"
    and c: "compute_ucca libs (gold_mrp_save_to ev) (pred_mrp_save_to ev) w3 = (Inr (snd r), w4)"
    and e: "snd (snd (ucca_run_eval libs ev step w)) = w4"
    by (auto simp add: ucca_run_eval_def Let_def split: prod.splits sum.splits option.splits)
  from ucca_gen_outputs_trace [OF g] write_mrp_trace [OF a] write_mrp_trace [OF b]
    compute_ucca_reads_writes [OF c]
  show ?thesis unfolding e by simp
qed

lemma ucca_gen_outputs_reads:
  "reads_of (trace (snd (ucca_gen_outputs ev w))) = reads_of (trace w)"
  using ucca_gen_outputs_trace [of ev w "fst (ucca_gen_outputs ev w)" "snd (ucca_gen_outputs ev w)"]
  by (simp split: option.splits)

lemma write_mrp_reads:
  "reads_of (trace (snd (write_mrp libs p data w))) = reads_of (trace w)"
  using write_mrp_trace [of libs p data w "fst (write_mrp libs p data w)" "snd (write_mrp libs p data w)"]
  by simp

lemma ucca_init_result:
  assumes "ucca_init tk gold_file sent_file save_dir m dl sp lang w = (Inr ev, w1)"
  shows "trace w1 = trace w @ [OpenRead gold_file, OpenRead sent_file]"
    and "\<exists>g s. files w gold_file = Some g \<and> files w sent_file = Some s
           \<and> gold_graphs ev = splitlines g \<and> sents ev = splitlines s"
    and "gold_mrp_save_to ev = joinpath save_dir (sp @ ''.gold.mrp'')"
    and "pred_mrp_save_to ev = joinpath save_dir (sp @ ''.pred.mrp'')"
    and "n_step ev = None"
  using assms
  by (auto simp add: ucca_init_def open_read_def split: option.splits)

lemma stub_ucca_run_eval:
  "fst (ucca_run_eval (stub_ucca_libs 0) stub_ucca_evaluator (Some 3) stub_world) = Inr (Finite 2, 1)"
  by (simp add: ucca_run_eval_def Let_def ucca_gen_outputs_def save_prediction_raw_def
      stub_ucca_evaluator_def stub_tokenizer_def stub_model_def model_eval_def stub_batch_def
      ucca_gen_args_def batch_decode_def convert_tokens_to_ids_def delinearize_to_tree_def
      reformat_to_mrp_def write_mrp_def stub_ucca_libs_def stub_parse_def compute_ucca_def
      check_output_def np_mean_def py_round3_def round3_def round_half_even_def)

text \<open>
  Claim C8. The constructor opens the gold file and the sentence file, once each, and
  keeps their lines in \<open>gold_graphs\<close> and \<open>sents\<close>. After that the object changes
  in \<open>run_eval\<close> only, which stores \<open>n_step\<close> and leaves \<open>gold_graphs\<close> and
  \<open>sents\<close> as they were; \<open>gen_outputs\<close>, \<open>delinearize_to_tree\<close>,
  \<open>reformat_to_mrp\<close> and \<open>write_mrp\<close> assign no attribute (they take the object
  and return no new one). None of \<open>run_eval\<close>, \<open>gen_outputs\<close> and \<open>write_mrp\<close>
  opens a file for reading, so the gold file is not read again.
\<close>

theorem gold_reference_read_once_and_kept:
  "(\<forall>ev w1. ucca_init tk gold_file sent_file save_dir m dl sp lang w0 = (Inr ev, w1) \<longrightarrow>
       reads_of (trace w1) = reads_of (trace w0) @ [gold_file, sent_file]
       \<and> (\<exists>g s. files w0 gold_file = Some g \<and> files w0 sent_file = Some s
              \<and> gold_graphs ev = splitlines g \<and> sents ev = splitlines s))
   \<and> gold_graphs (fst (snd (ucca_run_eval libs ev step w))) = gold_graphs ev
   \<and> sents (fst (snd (ucca_run_eval libs ev step w))) = sents ev
   \<and> reads_of (trace (snd (snd (ucca_run_eval libs ev step w)))) = reads_of (trace w)
   \<and> reads_of (trace (snd (ucca_gen_outputs ev w))) = reads_of (trace w)
   \<and> reads_of (trace (snd (write_mrp libs save_to data w))) = reads_of (trace w)"
proof (intro conjI allI impI)
  fix ev' w1
  assume i: "ucca_init tk gold_file sent_file save_dir m dl sp lang w0 = (Inr ev', w1)"
  from ucca_init_result(1) [OF i]
  show "reads_of (trace w1) = reads_of (trace w0) @ [gold_file, sent_file]" by simp
  from ucca_init_result(2) [OF i]
  show "\<exists>g s. files w0 gold_file = Some g \<and> files w0 sent_file = Some s
              \<and> gold_graphs ev' = splitlines g \<and> sents ev' = splitlines s" .
qed (simp_all add: ucca_run_eval_evaluator ucca_run_eval_reads ucca_gen_outputs_reads write_mrp_reads)

theorem gold_reference_read_once_and_kept_witness:
  "reads_of (trace (snd (ucca_init stub_tokenizer (Path False [''gold.txt'']) (Path False [''sent.txt''])
        (Path False [''out'']) stub_model [stub_batch] ''dev'' ''en'' stub_world)))
     = [Path False [''gold.txt''], Path False [''sent.txt'']]
   \<and> gold_graphs stub_ucca_evaluator = [''[ ok ]'', ''[ ok ]'']
   \<and> fst (ucca_run_eval (stub_ucca_libs 0) stub_ucca_evaluator (Some 3) stub_world) = Inr (Finite 2, 1)
   \<and> gold_graphs (fst (snd (ucca_run_eval (stub_ucca_libs 0) stub_ucca_evaluator (Some 3) stub_world)))
       = [''[ ok ]'', ''[ ok ]'']
   \<and> reads_of (trace (snd (snd (ucca_run_eval (stub_ucca_libs 0) stub_ucca_evaluator (Some 3) stub_world))))
       = []"
proof -
  have gg: "gold_graphs stub_ucca_evaluator = [''[ ok ]'', ''[ ok ]'']"
    by (simp add: stub_ucca_evaluator_def)
  have tr: "reads_of (trace stub_world) = []"
    by (simp add: stub_world_def)
  from gold_reference_read_once_and_kept
         [where tk = stub_tokenizer and gold_file = "Path False [''gold.txt'']"
            and sent_file = "Path False [''sent.txt'']" and save_dir = "Path False [''out'']"
            and m = stub_model and dl = "[stub_batch]" and sp = "''dev''" and lang = "''en''"
            and ?w0.0 = stub_world and libs = "stub_ucca_libs 0" and ev = stub_ucca_evaluator
            and step = "Some 3" and w = stub_world]
       stub_ucca_init gg tr stub_ucca_run_eval
  show ?thesis by simp
qed

text \<open>
  Claim C10. The constructor fixes the two MRP paths from the save directory and the
  split; \<open>run_eval\<close> keeps them, whatever the step. The files a \<open>run_eval\<close>
  opens for writing are, in order, the raw prediction file under the directory of the
  step and then these two paths, the run stopping early if a step raises; a
  \<open>run_eval\<close> that returns has written all three. \<open>write_mrp\<close> replaces the
  content of its file by what it writes.
\<close>

theorem mrp_paths_fixed:
  "(\<forall>ev w1. ucca_init tk gold_file sent_file save_dir m dl sp lang w0 = (Inr ev, w1) \<longrightarrow>
       gold_mrp_save_to ev = joinpath save_dir (sp @ ''.gold.mrp'')
       \<and> pred_mrp_save_to ev = joinpath save_dir (sp @ ''.pred.mrp''))
   \<and> gold_mrp_save_to (fst (snd (ucca_run_eval libs ev step w))) = gold_mrp_save_to ev
   \<and> pred_mrp_save_to (fst (snd (ucca_run_eval libs ev step w))) = pred_mrp_save_to ev
   \<and> (\<exists>k. writes_of (trace (snd (snd (ucca_run_eval libs ev step w)))) =
             writes_of (trace w) @
             take k [joinpath (joinpath (pred_save_dir ev) (format_step step)) ''ucca.pred.tf'',
                     gold_mrp_save_to ev, pred_mrp_save_to ev])
   \<and> (\<forall>r. fst (ucca_run_eval libs ev step w) = Inr r \<longrightarrow>
         writes_of (trace (snd (snd (ucca_run_eval libs ev step w)))) =
           writes_of (trace w) @
             [joinpath (joinpath (pred_save_dir ev) (format_step step)) ''ucca.pred.tf'',
              gold_mrp_save_to ev, pred_mrp_save_to ev])
   \<and> files (snd (write_mrp libs save_to data w)) save_to
       = Some (fst (dump_items (json_dump libs) data []))"
proof (intro conjI allI impI)
  fix ev' w1
  assume i: "ucca_init tk gold_file sent_file save_dir m dl sp lang w0 = (Inr ev', w1)"
  from ucca_init_result(3,4) [OF i]
  show "gold_mrp_save_to ev' = joinpath save_dir (sp @ ''.gold.mrp'')"
    and "pred_mrp_save_to ev' = joinpath save_dir (sp @ ''.pred.mrp'')" .
next
  show "\<exists>k. writes_of (trace (snd (snd (ucca_run_eval libs ev step w)))) =
             writes_of (trace w) @
             take k [joinpath (joinpath (pred_save_dir ev) (format_step step)) ''ucca.pred.tf'',
                     gold_mrp_save_to ev, pred_mrp_save_to ev]"
    by (rule ucca_run_eval_writes)
next
  fix r assume "fst (ucca_run_eval libs ev step w) = Inr r"
  then show "writes_of (trace (snd (snd (ucca_run_eval libs ev step w)))) =
           writes_of (trace w) @
             [joinpath (joinpath (pred_save_dir ev) (format_step step)) ''ucca.pred.tf'',
              gold_mrp_save_to ev, pred_mrp_save_to ev]"
    by (rule ucca_run_eval_writes_ok)
qed (simp_all add: ucca_run_eval_evaluator write_mrp_files)

theorem mrp_paths_fixed_witness:
  "fst (ucca_run_eval (stub_ucca_libs 0) stub_ucca_evaluator (Some 3) stub_world) = Inr (Finite 2, 1)
   \<and> writes_of (trace (snd (snd (ucca_run_eval (stub_ucca_libs 0) stub_ucca_evaluator (Some 3) stub_world))))
       = [Path False [''out'', ''step_3'', ''ucca.pred.tf''],
          Path False [''out'', ''dev.gold.mrp''], Path False [''out'', ''dev.pred.mrp'']]
   \<and> gold_mrp_save_to (fst (snd (ucca_run_eval (stub_ucca_libs 0) stub_ucca_evaluator (Some 3) stub_world)))
       = Path False [''out'', ''dev.gold.mrp'']"
proof -
  have p: "pred_save_dir stub_ucca_evaluator = Path False [''out'']"
    "gold_mrp_save_to stub_ucca_evaluator = Path False [''out'', ''dev.gold.mrp'']"
    "pred_mrp_save_to stub_ucca_evaluator = Path False [''out'', ''dev.pred.mrp'']"
    by (simp_all add: stub_ucca_evaluator_def)
  have f: "format_step (Some 3) = ''step_3''"
    by (simp add: format_step_def str_int_def digit_def)
  have tr: "writes_of (trace stub_world) = []"
    by (simp add: stub_world_def)
  from mrp_paths_fixed
         [where tk = stub_tokenizer and gold_file = "Path False [''gold.txt'']"
            and sent_file = "Path False [''sent.txt'']" and save_dir = "Path False [''out'']"
            and m = stub_model and dl = "[stub_batch]" and sp = "''dev''" and lang = "''en''"
            and ?w0.0 = stub_world and libs = "stub_ucca_libs 0" and ev = stub_ucca_evaluator
            and step = "Some 3" and w = stub_world]
       stub_ucca_run_eval
  show ?thesis by (simp add: p f tr)
qed

section \<open>Properties of MTEvaluator\<close>

lemma bleu_loop_eq:
  "bleu_loop metric zs scores = scores @ map (\<lambda>(pred, target). metric pred target) zs"
  by (induction zs arbitrary: scores) auto

lemma get_bleu_eq:
  "get_bleu libs preds targets =
     (if zip preds targets = [] then Inl RuntimeError
      else Inr (sentence_bleu_mean libs (zip preds targets)))"
  by (simp add: get_bleu_def bleu_loop_eq torch_mean_stack_def sentence_bleu_mean_def arith_mean_def)

lemma mt_sentence_pairs_n_step [simp]:
  "mt_sentence_pairs (ev\<lparr>n_step := n\<rparr>) dl = mt_sentence_pairs ev dl"
  by (simp add: mt_sentence_pairs_def)

lemma eval_translation_eq:
  assumes "n_step ev = Some step" and "mt_sentence_pairs ev dl \<noteq> []"
  shows "eval_translation libs ev lang (tokenizer ev) (model ev) dl w =
           (Inr (sentence_bleu_mean libs (mt_sentence_pairs ev dl)),
            snd (save_predictions
                   (fst (mt_gen_loop (tokenizer ev) (model ev)
                           (convert_tokens_to_ids (tokenizer ev) [tgt_lang ev] ! 0) dl [] []))
                   (mt_save_to ev step lang) w))"
  using assms
  by (simp add: eval_translation_def gen_translations_n_targets_def mt_sentence_pairs_def Let_def
      get_bleu_eq save_predictions_def split: prod.splits)

lemma mt_lang_loop_eq:
  assumes "n_step ev = Some step"
    and "\<forall>lang \<in> set ls. \<exists>dl. map_of (mt_dataloaders ev) lang = Some dl \<and> mt_sentence_pairs ev dl \<noteq> []"
  shows "fst (mt_lang_loop libs ev ls scores w) =
           Inr (scores @ map (\<lambda>lang. sentence_bleu_mean libs
                                (mt_sentence_pairs ev (the (map_of (mt_dataloaders ev) lang)))) ls)"
  using assms(2)
proof (induction ls arbitrary: scores w)
  case Nil
  show ?case by simp
next
  case (Cons lang rest)
  then obtain dl where dl: "map_of (mt_dataloaders ev) lang = Some dl"
    and ne: "mt_sentence_pairs ev dl \<noteq> []" by auto
  from Cons.prems have rest: "\<forall>lang \<in> set rest. \<exists>dl. map_of (mt_dataloaders ev) lang = Some dl
      \<and> mt_sentence_pairs ev dl \<noteq> []" by simp
  show ?case
    by (simp add: dl eval_translation_eq [OF assms(1) ne] Cons.IH [OF rest])
qed

lemma map_of_keys:
  assumes "distinct (map fst xs)"
  shows "map (\<lambda>k. f (the (map_of xs k))) (map fst xs) = map (\<lambda>(k, v). f v) xs"
proof -
  have "\<forall>(k, v) \<in> set xs. map_of xs k = Some v"
    using assms by auto
  then show ?thesis by (auto simp add: case_prod_beta)
qed

text \<open>
  Claim C5. For a dict of dataloaders (distinct keys) with at least one language, each
  language having at least one sentence pair, \<open>run_eval\<close> returns the arithmetic
  mean, each language counting once, of the scores of the languages; the score of a
  language is the arithmetic mean over its sentence pairs of the BLEU of each pair
  scored alone. That is what \<open>get_bleu\<close> computes on any non-empty list of pairs.
\<close>

theorem mt_run_eval_mean_of_means:
  assumes keys: "distinct (map fst (mt_dataloaders ev))"
    and langs: "mt_dataloaders ev \<noteq> []"
    and pairs: "\<forall>(lang, dl) \<in> set (mt_dataloaders ev). mt_sentence_pairs ev dl \<noteq> []"
  shows "fst (mt_run_eval libs ev step w) =
           Inr (arith_mean (map (\<lambda>(lang, dl). sentence_bleu_mean libs (mt_sentence_pairs ev dl))
                              (mt_dataloaders ev)))
         \<and> (\<forall>preds targets. zip preds targets \<noteq> [] \<longrightarrow>
               get_bleu libs preds targets =
                 Inr (arith_mean (map (\<lambda>(pred, target). bleu_score libs pred target)
                                    (zip preds targets))))"
proof
  let ?ev = "ev\<lparr>n_step := Some step\<rparr>"
  let ?f = "\<lambda>dl. sentence_bleu_mean libs (mt_sentence_pairs ev dl)"
  have st: "n_step ?ev = Some step" by simp
  have "\<forall>lang \<in> set (map fst (mt_dataloaders ?ev)).
          \<exists>dl. map_of (mt_dataloaders ?ev) lang = Some dl \<and> mt_sentence_pairs ?ev dl \<noteq> []"
    using keys pairs by auto
  from mt_lang_loop_eq [OF st this, of libs "[]" w]
  have "fst (mt_lang_loop libs ?ev (map fst (mt_dataloaders ev)) [] w) =
          Inr (map (\<lambda>lang. ?f (the (map_of (mt_dataloaders ev) lang))) (map fst (mt_dataloaders ev)))"
    by simp
  also have "map (\<lambda>lang. ?f (the (map_of (mt_dataloaders ev) lang))) (map fst (mt_dataloaders ev))
           = map (\<lambda>(lang, dl). ?f dl) (mt_dataloaders ev)"
    using keys by (rule map_of_keys)
  finally have loop: "fst (mt_lang_loop libs ?ev (map fst (mt_dataloaders ev)) [] w) =
          Inr (map (\<lambda>(lang, dl). ?f dl) (mt_dataloaders ev))" .
  obtain r w1 where rw: "mt_lang_loop libs ?ev (map fst (mt_dataloaders ev)) [] w = (r, w1)"
    by fastforce
  with loop have r: "r = Inr (map (\<lambda>(lang, dl). ?f dl) (mt_dataloaders ev))" by simp
  show "fst (mt_run_eval libs ev step w) =
           Inr (arith_mean (map (\<lambda>(lang, dl). ?f dl) (mt_dataloaders ev)))"
    using langs by (simp add: mt_run_eval_def Let_def rw r arith_mean_def)
next
  show "\<forall>preds targets. zip preds targets \<noteq> [] \<longrightarrow>
               get_bleu libs preds targets =
                 Inr (arith_mean (map (\<lambda>(pred, target). bleu_score libs pred target)
                                    (zip preds targets)))"
    by (simp add: get_bleu_eq sentence_bleu_mean_def)
qed

theorem mt_run_eval_mean_of_means_witness:
  "distinct (map fst (mt_dataloaders stub_mt_evaluator))
   \<and> fst (mt_run_eval stub_mt_libs stub_mt_evaluator (Some 3) stub_world) = Inr (1 / 2)"
proof -
  have keys: "distinct (map fst (mt_dataloaders stub_mt_evaluator))"
    and langs: "mt_dataloaders stub_mt_evaluator \<noteq> []"
    by (simp_all add: stub_mt_evaluator_def)
  have p1: "mt_sentence_pairs stub_mt_evaluator [stub_batch]
              = [(''[ ok ]'', ''[ ok ]''), (''[ broken'', ''[ ok ]'')]"
    and p2: "mt_sentence_pairs stub_mt_evaluator [stub_batch, stub_batch]
              = [(''[ ok ]'', ''[ ok ]''), (''[ broken'', ''[ ok ]''),
                 (''[ ok ]'', ''[ ok ]''), (''[ broken'', ''[ ok ]'')]"
    by (simp_all add: mt_sentence_pairs_def stub_mt_evaluator_def stub_tokenizer_def stub_model_def
        stub_batch_def mt_gen_args_def batch_decode_def Let_def)
  have pairs: "\<forall>(lang, dl) \<in> set (mt_dataloaders stub_mt_evaluator).
                 mt_sentence_pairs stub_mt_evaluator dl \<noteq> []"
    using p1 p2 by (simp add: stub_mt_evaluator_def)
  have dls: "mt_dataloaders stub_mt_evaluator = [(''fr'', [stub_batch]), (''de'', [stub_batch, stub_batch])]"
    by (simp add: stub_mt_evaluator_def)
  from mt_run_eval_mean_of_means [OF keys langs pairs, of stub_mt_libs "Some 3" stub_world]
  have "fst (mt_run_eval stub_mt_libs stub_mt_evaluator (Some 3) stub_world) =
           Inr (arith_mean (map (\<lambda>(lang, dl). sentence_bleu_mean stub_mt_libs
                                   (mt_sentence_pairs stub_mt_evaluator dl))
                              (mt_dataloaders stub_mt_evaluator)))"
    by blast
  then show ?thesis
    using keys
    by (simp add: dls p1 p2 sentence_bleu_mean_def arith_mean_def stub_mt_libs_def)
qed

end
